theory Spec2Isabelle
  imports Main
begin

section \<open>Python values and the built-ins the program applies to them\<close>

text \<open>
  The trip planner is a Python program. Its data are the values that a decoded JSON
  document can hold: \<open>None\<close>, booleans, integers, floats, strings, lists and dictionaries
  with string keys. A string is the list of its characters, a character outside ASCII
  standing as the bytes of its UTF-8 encoding (as in the program's own literals). Which
  characters \<open>strip()\<close> takes for white space, what \<open>upper()\<close> makes of a string and which
  literals \<open>int()\<close> reads are the interpreter's business (all three know the whole of
  Unicode): they are parameters of the model, with the other collaborators below.

  A float is carried by the three observations the program makes of one: its truth value,
  the result of \<open>int()\<close> and its printed form.
\<close>

datatype exn_class =
    UnboundLocalError | AttributeError | KeyError | TypeError | ValueError
  | JSONDecodeError | OverflowError | IndexError | RequestException | RecursionError
  | MemoryError | OtherError

text \<open>An exception: its class and the text \<open>str(e)\<close> gives.\<close>

datatype exn = PyExn (exn_cls: exn_class) (exn_msg: string)

definition str_exn :: "exn \<Rightarrow> string" where
  "str_exn e = exn_msg e"

datatype pyfloat = Finite (fl_nonzero: bool) (fl_trunc: int) | Infinite | NaN

datatype pyval =
    PNone
  | PBool bool
  | PInt int
  | PFloat pyfloat string
  | PStr string
  | PList "pyval list"
  | PDict "(string \<times> pyval) list"

text \<open>Truth value testing (\<open>if v\<close>, \<open>not v\<close>).\<close>

fun truthy :: "pyval \<Rightarrow> bool" where
  "truthy PNone = False"
| "truthy (PBool b) = b"
| "truthy (PInt n) = (n \<noteq> 0)"
| "truthy (PFloat (Finite nz t) r) = nz"
| "truthy (PFloat Infinite r) = True"
| "truthy (PFloat NaN r) = True"
| "truthy (PStr s) = (s \<noteq> [])"
| "truthy (PList xs) = (xs \<noteq> [])"
| "truthy (PDict kvs) = (kvs \<noteq> [])"

subsection \<open>Strings\<close>

text \<open>\<open>s.find(c)\<close> and \<open>s.rfind(c)\<close> for a one-character \<open>c\<close>: the index, or -1.\<close>

definition py_find :: "char \<Rightarrow> string \<Rightarrow> int" where
  "py_find c s =
     (if c \<in> set s then int (length (takeWhile (\<lambda>x. x \<noteq> c) s)) else - 1)"

definition py_rfind :: "char \<Rightarrow> string \<Rightarrow> int" where
  "py_rfind c s =
     (if c \<in> set s
      then int (length s) - 1 - int (length (takeWhile (\<lambda>x. x \<noteq> c) (rev s)))
      else - 1)"

text \<open>\<open>s[a:b]\<close>: a negative index counts from the end, and both are clipped to the string.\<close>

definition slice_index :: "nat \<Rightarrow> int \<Rightarrow> nat" where
  "slice_index n i = (if i < 0 then nat (max 0 (int n + i)) else min (nat i) n)"

definition py_slice :: "'a list \<Rightarrow> int \<Rightarrow> int \<Rightarrow> 'a list" where
  "py_slice s a b =
     (let lo = slice_index (length s) a; hi = slice_index (length s) b
      in take (hi - lo) (drop lo s))"

text \<open>\<open>sub in s\<close> on strings.\<close>

fun py_contains :: "string \<Rightarrow> string \<Rightarrow> bool" where
  "py_contains sub [] = (sub = [])"
| "py_contains sub (c # cs) = (take (length sub) (c # cs) = sub \<or> py_contains sub cs)"

text \<open>\<open>sep.join(xs)\<close>\<close>

fun py_join :: "string \<Rightarrow> string list \<Rightarrow> string" where
  "py_join sep [] = []"
| "py_join sep [x] = x"
| "py_join sep (x # y # ys) = x @ sep @ py_join sep (y # ys)"

text \<open>
  \<open>s.replace(old, new)\<close>: every non-overlapping occurrence, from the left; an empty
  \<open>old\<close> matches before every character and at the end.
\<close>

fun replace_from :: "nat \<Rightarrow> string \<Rightarrow> string \<Rightarrow> string \<Rightarrow> string" where
  "replace_from skip old new [] = []"
| "replace_from (Suc k) old new (c # cs) = replace_from k old new cs"
| "replace_from 0 old new (c # cs) =
     (if take (length old) (c # cs) = old
      then new @ replace_from (length old - 1) old new cs
      else c # replace_from 0 old new cs)"

definition py_replace :: "string \<Rightarrow> string \<Rightarrow> string \<Rightarrow> string" where
  "py_replace old new s =
     (if old = [] then new @ concat (map (\<lambda>c. c # new) s)
      else replace_from 0 old new s)"

subsection \<open>Printing\<close>

definition digit_char :: "nat \<Rightarrow> char" where
  "digit_char d = ''0123456789'' ! (d mod 10)"

fun dec_nat :: "nat \<Rightarrow> string" where
  "dec_nat n = (if n < 10 then [digit_char n] else dec_nat (n div 10) @ [digit_char n])"

definition dec_int :: "int \<Rightarrow> string" where
  "dec_int i = (if i < 0 then CHR ''-'' # dec_nat (nat (- i)) else dec_nat (nat i))"

definition hex_char :: "nat \<Rightarrow> char" where
  "hex_char d = ''0123456789abcdef'' ! (d mod 16)"

text \<open>\<open>repr\<close> of a string: the quote Python chooses, and its escapes.\<close>

definition repr_char :: "char \<Rightarrow> char \<Rightarrow> string" where
  "repr_char q c =
     (if c = CHR 0x5C then [CHR 0x5C, CHR 0x5C]
      else if c = q then [CHR 0x5C, q]
      else if c = CHR 0x0A then [CHR 0x5C, CHR ''n'']
      else if c = CHR 0x0D then [CHR 0x5C, CHR ''r'']
      else if c = CHR 0x09 then [CHR 0x5C, CHR ''t'']
      else if (of_char c :: nat) < 32 \<or> c = CHR 0x7F
        then [CHR 0x5C, CHR ''x'', hex_char (of_char c div 16), hex_char (of_char c)]
      else [c])"

definition repr_str :: "string \<Rightarrow> string" where
  "repr_str s =
     (let q = (if CHR 0x27 \<in> set s \<and> CHR 0x22 \<notin> set s then CHR 0x22 else CHR 0x27)
      in q # concat (map (repr_char q) s) @ [q])"

fun py_repr :: "pyval \<Rightarrow> string" where
  "py_repr PNone = ''None''"
| "py_repr (PBool b) = (if b then ''True'' else ''False'')"
| "py_repr (PInt n) = dec_int n"
| "py_repr (PFloat f r) = r"
| "py_repr (PStr s) = repr_str s"
| "py_repr (PList xs) = ''['' @ py_join '', '' (map py_repr xs) @ '']''"
| "py_repr (PDict kvs) =
     ''{'' @ py_join '', '' (map (\<lambda>kv. repr_str (fst kv) @ '': '' @ py_repr (snd kv)) kvs) @ ''}''"

text \<open>\<open>str(v)\<close>, which an f-string applies to each value it formats.\<close>

fun py_str :: "pyval \<Rightarrow> string" where
  "py_str (PStr s) = s"
| "py_str v = py_repr v"

text \<open>The name Python prints for the type of a value, as its error messages do.\<close>

fun type_name :: "pyval \<Rightarrow> string" where
  "type_name PNone = ''NoneType''"
| "type_name (PBool b) = ''bool''"
| "type_name (PInt n) = ''int''"
| "type_name (PFloat f r) = ''float''"
| "type_name (PStr s) = ''str''"
| "type_name (PList xs) = ''list''"
| "type_name (PDict kvs) = ''dict''"

subsection \<open>Dictionaries\<close>

text \<open>
  A dictionary value is the list of its items in insertion order (its keys are distinct).
  The accumulated trip request is looked up by key only, and is a map.
\<close>

definition dict_update :: "(string \<rightharpoonup> pyval) \<Rightarrow> (string \<times> pyval) list \<Rightarrow> (string \<rightharpoonup> pyval)" where
  "dict_update d kvs = fold (\<lambda>kv m. m(fst kv \<mapsto> snd kv)) kvs d"

text \<open>\<open>v.items()\<close>: only a dictionary has the method.\<close>

fun py_items :: "pyval \<Rightarrow> exn + (string \<times> pyval) list" where
  "py_items (PDict kvs) = Inr kvs"
| "py_items v =
     Inl (PyExn AttributeError
       ([CHR 0x27] @ type_name v @ [CHR 0x27] @ '' object has no attribute ''
         @ [CHR 0x27] @ ''items'' @ [CHR 0x27]))"

section \<open>The outside world\<close>

text \<open>
  Everything the program reaches outside itself is a call on a collaborator: the model
  client, the credential service, the flight and hotel providers, the web search, the page
  fetch, the weather service and the clock. Each call is recorded, in order, in a trace;
  what a collaborator answers may depend on everything that happened before, so it is a
  function of the trace at the time of the call. The JSON codec, date parsing and the
  string methods of the interpreter are library functions of their argument alone.
\<close>

type_synonym message = "string \<times> string"

datatype llm_input = Text string | Conversation "message list"

datatype event =
    TokenRefresh
  | Invoke llm_input
  | SearchFlights string string string
  | SearchHotels pyval string string int int string
  | WebSearch string
  | PageFetch pyval
  | WeatherGet string

text \<open>
  \<open>token_expired\<close> is \<open>LLM.is_token_expired\<close> and \<open>update_access_token\<close> the refresh of the
  credential, which may raise; \<open>client_invoke\<close> is \<open>self.client.invoke\<close> and gives the
  reply's content. \<open>json_loads\<close> gives the decoded value, or the exception it raises: a
  JSONDecodeError for a text that is no JSON document, and others (a RecursionError for
  a document nested too deep, a ValueError for a number of too many digits).
  \<open>strptime\<close> gives the number of the day a date names, or the message of its ValueError. \<open>search_flights\<close> and \<open>search_hotels\<close> are the two provider
  functions, \<open>requests_get_json\<close> the web search request with the decoding of its answer,
  \<open>get_data_from_url\<close> the page scraper, which returns a text in every case, and
  \<open>weather_get_json\<close> the forecast request with its status check and decoding.
  \<open>datetime_now\<close> is the clock: a day number and the microseconds elapsed in that day.
  \<open>weather_key\<close> is the configured key of the weather service.

  \<open>py_strip\<close> is \<open>str.strip()\<close>, \<open>py_upper\<close> is \<open>str.upper()\<close> and \<open>int_of_str\<close> is \<open>int()\<close> on
  a string. \<open>can_allocate k\<close> tells whether the interpreter gets the memory for a new
  string of \<open>k\<close> characters.
\<close>

record env =
  token_expired :: "event list \<Rightarrow> bool"
  update_access_token :: "event list \<Rightarrow> exn option"
  client_invoke :: "event list \<Rightarrow> llm_input \<Rightarrow> exn + string"
  json_loads :: "string \<Rightarrow> exn + pyval"
  json_dumps :: "pyval \<Rightarrow> exn + string"
  search_flights :: "event list \<Rightarrow> string \<Rightarrow> string \<Rightarrow> string \<Rightarrow> exn + pyval"
  search_hotels :: "event list \<Rightarrow> pyval \<Rightarrow> string \<Rightarrow> string \<Rightarrow> int \<Rightarrow> int \<Rightarrow> string \<Rightarrow> exn + pyval"
  requests_get_json :: "event list \<Rightarrow> string \<Rightarrow> exn + pyval"
  get_data_from_url :: "event list \<Rightarrow> pyval \<Rightarrow> string"
  weather_get_json :: "event list \<Rightarrow> string \<Rightarrow> exn + pyval"
  datetime_now :: "event list \<Rightarrow> int \<times> nat"
  strptime :: "string \<Rightarrow> string + int"
  weather_key :: pyval
  py_strip :: "string \<Rightarrow> string"
  py_upper :: "string \<Rightarrow> string"
  int_of_str :: "string \<Rightarrow> exn + int"
  can_allocate :: "nat \<Rightarrow> bool"

text \<open>
  A computation runs from a trace to a result, which is a value or a raised exception,
  and the trace it leaves.
\<close>

type_synonym 'a comp = "event list \<Rightarrow> (exn + 'a) \<times> event list"

definition returns :: "'a \<Rightarrow> 'a comp" where
  "returns x tr = (Inr x, tr)"

definition raises :: "exn \<Rightarrow> 'a comp" where
  "raises e tr = (Inl e, tr)"

definition lift :: "exn + 'a \<Rightarrow> 'a comp" where
  "lift r tr = (r, tr)"

definition and_then :: "'a comp \<Rightarrow> ('a \<Rightarrow> 'b comp) \<Rightarrow> 'b comp" where
  "and_then m f tr = (case m tr of (Inl e, tr') \<Rightarrow> (Inl e, tr') | (Inr x, tr') \<Rightarrow> f x tr')"

text \<open>\<open>try: m except Exception as e: h e\<close>.\<close>

definition try_except :: "'a comp \<Rightarrow> (exn \<Rightarrow> 'a comp) \<Rightarrow> 'a comp" where
  "try_except m h tr = (case m tr of (Inl e, tr') \<Rightarrow> h e tr' | (Inr x, tr') \<Rightarrow> (Inr x, tr'))"

text \<open>A call on a collaborator: its answer at this trace, and the call recorded.\<close>

definition call :: "event \<Rightarrow> (event list \<Rightarrow> exn + 'a) \<Rightarrow> 'a comp" where
  "call ev answer tr = (answer tr, tr @ [ev])"

section \<open>Built-ins that depend on the interpreter\<close>

text \<open>\<open>int(v)\<close>: a number is truncated, a string is read by the interpreter.\<close>

fun py_int :: "env \<Rightarrow> pyval \<Rightarrow> exn + int" where
  "py_int env (PInt n) = Inr n"
| "py_int env (PBool b) = Inr (if b then 1 else 0)"
| "py_int env (PFloat (Finite nz t) r) = Inr t"
| "py_int env (PFloat Infinite r) =
     Inl (PyExn OverflowError ''cannot convert float infinity to integer'')"
| "py_int env (PFloat NaN r) = Inl (PyExn ValueError ''cannot convert float NaN to integer'')"
| "py_int env (PStr s) = int_of_str env s"
| "py_int env v =
     Inl (PyExn TypeError
       (''int() argument must be a string, a bytes-like object or a real number, not ''
         @ [CHR 0x27] @ type_name v @ [CHR 0x27]))"

text \<open>
  \<open>s * n\<close> on a string. The count must fit the machine's index type (64 bits, signed), and
  so must the length of the result; then the result needs its memory. A count below 1
  gives the empty string, and the count 1 the string itself.
\<close>

definition ssize_t_max :: int where
  "ssize_t_max = 2 ^ 63 - 1"

definition py_repeat :: "env \<Rightarrow> string \<Rightarrow> int \<Rightarrow> exn + string" where
  "py_repeat env s n =
     (if n < - ssize_t_max - 1 \<or> ssize_t_max < n then
        Inl (PyExn OverflowError
               (''cannot fit '' @ [CHR 0x27] @ ''int'' @ [CHR 0x27]
                  @ '' into an index-sized integer''))
      else if n < 1 then Inr []
      else if n = 1 then Inr s
      else if ssize_t_max div n < int (length s) then
        Inl (PyExn OverflowError ''repeated string is too long'')
      else if s = [] \<or> can_allocate env (length s * nat n) then
        Inr (concat (replicate (nat n) s))
      else Inl (PyExn MemoryError []))"

section \<open>The language-model client (llm.py)\<close>

definition max_retries :: nat where
  "max_retries = 5"

text \<open>\<open>if isinstance(prompt, str): prompt = prompt.strip()\<close>\<close>

fun strip_prompt :: "env \<Rightarrow> llm_input \<Rightarrow> llm_input" where
  "strip_prompt env (Text s) = Text (py_strip env s)"
| "strip_prompt env (Conversation ms) = Conversation ms"

text \<open>
  The body of the \<open>try\<close> in \<open>LLM.inference\<close>: refresh the token when it has expired, then
  invoke the client. Either step may raise. The client's own log of prompts and replies
  (\<open>self.conversation\<close>) is never read; the trace holds the same invocations.
\<close>

definition attempt :: "env \<Rightarrow> llm_input \<Rightarrow> string comp" where
  "attempt env prompt =
     and_then
       (\<lambda>tr. if token_expired env tr
             then (case update_access_token env tr of
                     Some e \<Rightarrow> (Inl e, tr @ [TokenRefresh])
                   | None \<Rightarrow> (Inr (), tr @ [TokenRefresh]))
             else (Inr (), tr))
       (\<lambda>_. call (Invoke (strip_prompt env prompt))
               (\<lambda>tr. client_invoke env tr (strip_prompt env prompt)))"

text \<open>
  The loop of \<open>LLM.inference\<close> over its local variables \<open>err\<close>, \<open>retries\<close> and \<open>response\<close>
  (unbound until an attempt succeeds); it returns their final values.
\<close>

function inference_loop ::
  "env \<Rightarrow> llm_input \<Rightarrow> bool \<Rightarrow> nat \<Rightarrow> string option \<Rightarrow> event list
     \<Rightarrow> (bool \<times> nat \<times> string option) \<times> event list" where
  "inference_loop env prompt err retries response tr =
     (if err \<and> retries < max_retries then
        (case attempt env prompt tr of
           (Inr r, tr') \<Rightarrow> inference_loop env prompt False retries (Some r) tr'
         | (Inl e, tr') \<Rightarrow> inference_loop env prompt err (Suc retries) response tr')
      else ((err, retries, response), tr))"
  by pat_completeness auto
termination
  by (relation "measure (\<lambda>(env, prompt, err, retries, response, tr).
        (if err then 1 else 0) + (max_retries - retries))") auto

text \<open>
  \<open>return response.content\<close>: when no attempt has succeeded, \<open>response\<close> is unbound and the
  statement raises UnboundLocalError.
\<close>

definition inference :: "env \<Rightarrow> llm_input \<Rightarrow> string comp" where
  "inference env prompt tr =
     (case inference_loop env prompt True 0 None tr of
        ((err, retries, Some r), tr') \<Rightarrow> (Inr r, tr')
      | ((err, retries, None), tr') \<Rightarrow>
          (Inl (PyExn UnboundLocalError
             (''cannot access local variable '' @ [CHR 0x27] @ ''response'' @ [CHR 0x27]
               @ '' where it is not associated with a value'')), tr'))"

section \<open>The planner's backend (backend.py)\<close>

record backend =
  collected_info :: "string \<rightharpoonup> pyval"
  conversation_history :: "message list"

definition required_fields :: "string list" where
  "required_fields =
     [''source'', ''destination'', ''start_date'', ''end_date'', ''number_of_adults'',
      ''budget_per_person'', ''number_of_children'', ''travel_style'']"

definition new_backend :: backend where
  "new_backend = \<lparr>collected_info = Map.empty, conversation_history = []\<rparr>"

definition extract_prompt :: "string \<Rightarrow> string" where
  \<open>extract_prompt user_input =
     ''\<newline>        You are a data extraction agent. Your task is to extract the following fields from user input: '' @
     py_join '', '' required_fields @ ''.\<newline>\<newline>        User Input: '' @
     user_input @
     ''\<newline>\<newline>        Response Format:\<newline>        ```\<newline>        {\<newline>            "source": "value",\<newline>            "destination": "value",\<newline>            "start_date": "value",\<newline>            "end_date": "value",\<newline>            "number_of_adults": "value",\<newline>            "budget_per_person": "value",\<newline>            "number_of_children": "value",\<newline>            "travel_style": "value"\<newline>        }  \<newline>        ```\<newline>\<newline>        If a field is not mentioned in the user input, do not include it in your response.\<newline>        \<newline>        Any response other than this format will be rejected by the system.\<newline>        ''\<close>

text \<open>
  \<open>except (json.JSONDecodeError, ValueError)\<close>: the handler takes a ValueError and its
  subclass JSONDecodeError. No other class of the model is a ValueError; \<open>OtherError\<close>
  stands for the classes of the collaborators' own failures.
\<close>

definition caught_by_extract :: "exn \<Rightarrow> bool" where
  "caught_by_extract e = (exn_cls e = JSONDecodeError \<or> exn_cls e = ValueError)"

text \<open>
  \<open>extract_info_from_input\<close>. The model call stands before the \<open>try\<close>, so what it raises
  leaves the function. Inside the \<open>try\<close>, what \<open>json.loads\<close> raises is caught when the
  handler takes its class, and the function falls through to \<open>return {}\<close>; any other
  exception of \<open>json.loads\<close>, and an AttributeError of \<open>info.items()\<close>, leave the function.
\<close>

definition extract_info_from_input ::
  "env \<Rightarrow> string \<Rightarrow> backend \<Rightarrow> event list \<Rightarrow> (exn + pyval) \<times> backend \<times> event list" where
  "extract_info_from_input env user_input b tr =
     (let conversation = conversation_history b @ [(''user'', extract_prompt user_input)]
      in case inference env (Conversation conversation) tr of
           (Inl e, tr') \<Rightarrow> (Inl e, b, tr')
         | (Inr info_response, tr') \<Rightarrow>
             (let info_start = py_find CHR ''{'' info_response;
                  info_end = py_rfind CHR ''}'' info_response + 1
              in if info_start \<noteq> - 1 \<and> info_end \<noteq> 0 then
                   (case json_loads env (py_slice info_response info_start info_end) of
                      Inl e \<Rightarrow>
                        if caught_by_extract e then (Inr (PDict []), b, tr')
                        else (Inl e, b, tr')
                    | Inr info \<Rightarrow>
                        (case py_items info of
                           Inl e \<Rightarrow> (Inl e, b, tr')
                         | Inr items \<Rightarrow>
                             (Inr info,
                              b\<lparr>collected_info :=
                                   dict_update (collected_info b)
                                     (filter (\<lambda>kv. truthy (snd kv)) items),
                                 conversation_history :=
                                   conversation_history b
                                     @ [(''user'', user_input), (''assistant'', info_response)]\<rparr>,
                              tr')))
                 else (Inr (PDict []), b, tr')))"

definition is_missing :: "backend \<Rightarrow> string \<Rightarrow> bool" where
  "is_missing b field =
     (case collected_info b field of None \<Rightarrow> True | Some v \<Rightarrow> \<not> truthy v)"

definition get_missing_fields :: "backend \<Rightarrow> string list" where
  "get_missing_fields b = filter (is_missing b) required_fields"

definition is_info_complete :: "backend \<Rightarrow> bool" where
  "is_info_complete b = (length (get_missing_fields b) = 0)"

definition field_names :: "(string \<times> string) list" where
  "field_names =
     [(''source'', ''departure city/location''),
      (''destination'', ''destination city/country''),
      (''start_date'', ''start date of travel''),
      (''end_date'', ''end date of travel''),
      (''number_of_adults'', ''number of adults''),
      (''budget_per_person'', ''budget per person''),
      (''number_of_children'', ''number of children''),
      (''travel_style'', ''travel style (economy/balanced/luxury)'')]"

definition get_missing_fields_message :: "backend \<Rightarrow> string" where
  "get_missing_fields_message b =
     (let missing = get_missing_fields b
      in if missing = [] then ''All required information collected!''
         else
           (let missing_readable =
                  map (\<lambda>field. case map_of field_names field of Some n \<Rightarrow> n | None \<Rightarrow> field) missing
            in ''I still need the following information: '' @ py_join '', '' missing_readable
                 @ ''. Please provide these details.''))"

subsection \<open>Python operations of the adapters: subscripts, membership, iteration\<close>

text \<open>\<open>d[k]\<close> on the collected record: a missing key raises KeyError.\<close>

definition lookup :: "(string \<rightharpoonup> pyval) \<Rightarrow> string \<Rightarrow> pyval comp" where
  "lookup d k = (case d k of Some v \<Rightarrow> returns v | None \<Rightarrow> raises (PyExn KeyError (repr_str k)))"

definition not_subscriptable :: "pyval \<Rightarrow> exn" where
  "not_subscriptable v =
     PyExn TypeError ([CHR 0x27] @ type_name v @ [CHR 0x27] @ '' object is not subscriptable'')"

text \<open>\<open>xs[i]\<close> on a list: a negative index counts from the end.\<close>

definition list_index :: "'a list \<Rightarrow> int \<Rightarrow> 'a option" where
  "list_index xs i =
     (if 0 \<le> i \<and> i < int (length xs) then Some (xs ! nat i)
      else if i < 0 \<and> - i \<le> int (length xs) then Some (xs ! nat (int (length xs) + i))
      else None)"

text \<open>\<open>v[k]\<close> with a string key, and \<open>v[0]\<close>.\<close>

fun getitem_str :: "pyval \<Rightarrow> string \<Rightarrow> exn + pyval" where
  "getitem_str (PDict kvs) k =
     (case map_of kvs k of Some v \<Rightarrow> Inr v | None \<Rightarrow> Inl (PyExn KeyError (repr_str k)))"
| "getitem_str (PList xs) k =
     Inl (PyExn TypeError ''list indices must be integers or slices, not str'')"
| "getitem_str (PStr s) k =
     Inl (PyExn TypeError (''string indices must be integers, not '' @ [CHR 0x27] @ ''str'' @ [CHR 0x27]))"
| "getitem_str v k = Inl (not_subscriptable v)"

fun getitem_int :: "pyval \<Rightarrow> int \<Rightarrow> exn + pyval" where
  "getitem_int (PList xs) i =
     (case list_index xs i of Some v \<Rightarrow> Inr v
      | None \<Rightarrow> Inl (PyExn IndexError ''list index out of range''))"
| "getitem_int (PStr s) i =
     (case list_index s i of Some c \<Rightarrow> Inr (PStr [c])
      | None \<Rightarrow> Inl (PyExn IndexError ''string index out of range''))"
| "getitem_int (PDict kvs) i = Inl (PyExn KeyError (dec_int i))"
| "getitem_int v i = Inl (not_subscriptable v)"

text \<open>\<open>k in v\<close> for a string \<open>k\<close>.\<close>

fun str_in :: "string \<Rightarrow> pyval \<Rightarrow> exn + bool" where
  "str_in k (PDict kvs) = Inr (k \<in> fst ` set kvs)"
| "str_in k (PList xs) = Inr (PStr k \<in> set xs)"
| "str_in k (PStr s) = Inr (py_contains k s)"
| "str_in k v =
     Inl (PyExn TypeError (''argument of type '' @ [CHR 0x27] @ type_name v @ [CHR 0x27]
            @ '' is not iterable''))"

text \<open>\<open>d.get(k, default)\<close>.\<close>

fun py_get :: "pyval \<Rightarrow> string \<Rightarrow> pyval \<Rightarrow> exn + pyval" where
  "py_get (PDict kvs) k dflt = Inr (case map_of kvs k of Some v \<Rightarrow> v | None \<Rightarrow> dflt)"
| "py_get v k dflt =
     Inl (PyExn AttributeError ([CHR 0x27] @ type_name v @ [CHR 0x27]
            @ '' object has no attribute '' @ [CHR 0x27] @ ''get'' @ [CHR 0x27]))"

text \<open>\<open>for x in v\<close>: the elements of a list, the keys of a dictionary, the characters of a string.\<close>

fun py_iter :: "pyval \<Rightarrow> exn + pyval list" where
  "py_iter (PList xs) = Inr xs"
| "py_iter (PDict kvs) = Inr (map (\<lambda>kv. PStr (fst kv)) kvs)"
| "py_iter (PStr s) = Inr (map (\<lambda>c. PStr [c]) s)"
| "py_iter v =
     Inl (PyExn TypeError ([CHR 0x27] @ type_name v @ [CHR 0x27] @ '' object is not iterable''))"

text \<open>\<open>d[k] = v\<close> on a dictionary built by the program: an existing key keeps its place.\<close>

fun dict_set :: "(string \<times> 'a) list \<Rightarrow> string \<Rightarrow> 'a \<Rightarrow> (string \<times> 'a) list" where
  "dict_set [] k v = [(k, v)]"
| "dict_set ((k', v') # kvs) k v = (if k' = k then (k, v) # kvs else (k', v') # dict_set kvs k v)"

text \<open>Strings compare by their characters' code points.\<close>

fun str_less :: "string \<Rightarrow> string \<Rightarrow> bool" where
  "str_less [] [] = False"
| "str_less [] (b # ys) = True"
| "str_less (a # xs) [] = False"
| "str_less (a # xs) (b # ys) =
     ((of_char a :: nat) < of_char b \<or> (a = b \<and> str_less xs ys))"

text \<open>\<open>v > s\<close> and \<open>v >= s\<close> against a string: any other type on the left raises TypeError.\<close>

definition not_comparable :: "string \<Rightarrow> pyval \<Rightarrow> exn" where
  "not_comparable oper v =
     PyExn TypeError ([CHR 0x27] @ oper @ [CHR 0x27] @ '' not supported between instances of ''
        @ [CHR 0x27] @ type_name v @ [CHR 0x27] @ '' and '' @ [CHR 0x27] @ ''str'' @ [CHR 0x27])"

fun gt_str :: "pyval \<Rightarrow> string \<Rightarrow> exn + bool" where
  "gt_str (PStr a) s = Inr (str_less s a)"
| "gt_str v s = Inl (not_comparable ''>'' v)"

fun ge_str :: "pyval \<Rightarrow> string \<Rightarrow> exn + bool" where
  "ge_str (PStr a) s = Inr (\<not> str_less a s)"
| "ge_str v s = Inl (not_comparable ''>='' v)"

text \<open>\<open>json.loads\<close> where every exception it raises is handled alike.\<close>

definition loads :: "env \<Rightarrow> string \<Rightarrow> exn + pyval" where
  "loads env s = json_loads env s"

text \<open>\<open>except Exception as e: return h e\<close> around a whole function body.\<close>

definition catch_all :: "'a comp \<Rightarrow> (exn \<Rightarrow> 'a) \<Rightarrow> event list \<Rightarrow> 'a \<times> event list" where
  "catch_all m h tr = (case m tr of (Inr x, tr') \<Rightarrow> (x, tr') | (Inl e, tr') \<Rightarrow> (h e, tr'))"

subsection \<open>Flights\<close>

definition error_dict :: "string \<Rightarrow> (string \<times> pyval) list" where
  "error_dict msg = [(''error'', PStr msg)]"

definition airport_prompt :: "pyval \<Rightarrow> string" where
  \<open>airport_prompt source =
     ''What is the short form of '' @ py_str source @
     '' airport to book flight from API? Just reply with the short form, nothing else. If there is no airport, reply with 'N/A'.''\<close>

definition date_prompt :: "pyval \<Rightarrow> string" where
  \<open>date_prompt d =
     ''Convert the following date in YYYY-MM-DD format: '' @ py_str d @
     ''. Just reply with the date, nothing else. Assume that the current year is 2025''\<close>

text \<open>\<open>prompt.replace(source, destination)\<close>: both arguments must be strings.\<close>

definition replace_arg_error :: "nat \<Rightarrow> pyval \<Rightarrow> exn" where
  "replace_arg_error i v =
     PyExn TypeError (''replace() argument '' @ dec_nat i @ '' must be str, not '' @ type_name v)"

fun replace_vals :: "string \<Rightarrow> pyval \<Rightarrow> pyval \<Rightarrow> exn + string" where
  "replace_vals s (PStr old) (PStr new) = Inr (py_replace old new s)"
| "replace_vals s (PStr old) new = Inl (replace_arg_error 2 new)"
| "replace_vals s old new = Inl (replace_arg_error 1 old)"

text \<open>The \<open>try\<close> body of \<open>get_flights_info\<close>.\<close>

definition flights_body :: "env \<Rightarrow> backend \<Rightarrow> (string \<times> pyval) list comp" where
  "flights_body env b =
     and_then (lookup (collected_info b) ''source'') (\<lambda>source.
     and_then (lookup (collected_info b) ''destination'') (\<lambda>destination.
     and_then (lookup (collected_info b) ''start_date'') (\<lambda>start_date.
     and_then (lookup (collected_info b) ''end_date'') (\<lambda>end_date.
     and_then (inference env (Text (airport_prompt source))) (\<lambda>source_code.
     if py_upper env (py_strip env source_code) = ''N/A''
     then returns (error_dict (''No airport found for source: '' @ py_str source))
     else
     and_then (lift (replace_vals (airport_prompt source) source destination)) (\<lambda>destination_prompt.
     and_then (inference env (Text destination_prompt)) (\<lambda>destination_code.
     if py_upper env (py_strip env destination_code) = ''N/A''
     then returns (error_dict (''No airport found for destination: '' @ py_str destination))
     else
     and_then (inference env (Text (date_prompt start_date))) (\<lambda>formatted_start_date.
     and_then (inference env (Text (date_prompt end_date))) (\<lambda>formatted_end_date.
     and_then
       (call (SearchFlights (py_strip env source_code) (py_strip env destination_code)
                (py_strip env formatted_start_date))
          (\<lambda>tr. search_flights env tr (py_strip env source_code) (py_strip env destination_code)
                (py_strip env formatted_start_date))) (\<lambda>start_flights.
     and_then
       (call (SearchFlights (py_strip env destination_code) (py_strip env source_code)
                (py_strip env formatted_end_date))
          (\<lambda>tr. search_flights env tr (py_strip env destination_code) (py_strip env source_code)
                (py_strip env formatted_end_date))) (\<lambda>end_flights.
     returns [(''start_flights'', start_flights), (''end_flights'', end_flights)])))))))))))"

definition get_flights_info :: "env \<Rightarrow> backend \<Rightarrow> event list \<Rightarrow> (string \<times> pyval) list \<times> event list" where
  "get_flights_info env b =
     catch_all (flights_body env b)
       (\<lambda>e. error_dict (''Error getting flight information: '' @ str_exn e))"

subsection \<open>Ranking\<close>

definition best_flight_prompt :: "pyval \<Rightarrow> pyval \<Rightarrow> string \<Rightarrow> string" where
  \<open>best_flight_prompt budget_per_person travel_style dumped =
     ''\<newline>            You are a flight booking assistant. Your task is to find the best flight based on user's budget and travel style.\<newline>            \<newline>            Budget per person: '' @
     py_str budget_per_person @ ''\<newline>            Travel style: '' @ py_str travel_style @
     ''\<newline>\<newline>            Here are the available flights:\<newline>            '' @
     dumped @
     ''\<newline>\<newline>            The best flight depends on both budget and travel style. For example, \<newline>            - if the travel style is "economy", prioritize cheaper flights even if they have longer durations, off timings or more stops.\<newline>            - if the travel style is "luxury", prioritize shorter durations, better timings and fewer stops even if they are more expensive.\<newline>            - if the travel style is "balanced", find a good compromise between cost and convenience.\<newline>\<newline>            Based on the above criteria, select the best flight and provide the details in the following format:\<newline>            ```\<newline>            {\<newline>                "ongoing_flight": {\<newline>                    "airline": "value",\<newline>                    "price": "value",\<newline>                    "duration": "value",\<newline>                    "stops": "value",\<newline>                    "departure": "value",\<newline>                    "arrival": "value",\<newline>                    "travel_class": "value"\<newline>                },\<newline>                "return_flight": {\<newline>                    "airline": "value",\<newline>                    "price": "value",\<newline>                    "duration": "value",\<newline>                    "stops": "value",\<newline>                    "departure": "value",\<newline>                    "arrival": "value",\<newline>                    "travel_class": "value"\<newline>                }\<newline>            }\<newline>            ```\<newline>\<newline>            Any response other than this format will be rejected by the system.\<newline>            ''\<close>

text \<open>\<open>self.collected_info.get("travel_style", "balanced")\<close>\<close>

definition travel_style_of :: "backend \<Rightarrow> pyval" where
  "travel_style_of b =
     (case collected_info b ''travel_style'' of Some v \<Rightarrow> v | None \<Rightarrow> PStr ''balanced'')"

definition find_best_flight :: "env \<Rightarrow> backend \<Rightarrow> pyval \<Rightarrow> event list \<Rightarrow> pyval \<times> event list" where
  "find_best_flight env b flights_info =
     catch_all
       (and_then (lookup (collected_info b) ''budget_per_person'') (\<lambda>budget_per_person.
        and_then (lift (json_dumps env flights_info)) (\<lambda>dumped.
        and_then (inference env
                    (Text (best_flight_prompt budget_per_person (travel_style_of b) dumped))) (\<lambda>resp.
        let resp_start = py_find CHR ''{'' resp;
            resp_end = py_rfind CHR ''}'' resp + 1
        in if resp_start \<noteq> - 1 \<and> resp_end \<noteq> 0
           then lift (loads env (py_slice resp resp_start resp_end))
           else returns (PDict (error_dict ''Could not parse flight response''))))))
       (\<lambda>e. PDict (error_dict (''Error finding best flight: '' @ str_exn e)))"

definition best_hotel_prompt :: "pyval \<Rightarrow> pyval \<Rightarrow> string \<Rightarrow> string" where
  \<open>best_hotel_prompt budget_per_person travel_style dumped =
     ''\<newline>            You are a hotel booking assistant. Your task is to find the best hotel based on user's budget and travel style.\<newline>\<newline>            Budget per person: '' @
     py_str budget_per_person @ ''\<newline>            Travel style: '' @ py_str travel_style @
     ''\<newline>\<newline>            Here are the available hotels:\<newline>            '' @
     dumped @
     ''\<newline>\<newline>            The best hotel depends on both budget and travel style. For example,\<newline>            - if the travel style is "economy", prioritize cheaper hotels even if they have fewer amenities or less desirable locations.\<newline>            - if the travel style is "luxury", prioritize hotels with more amenities, better locations, and higher ratings even if they are more expensive.\<newline>            - if the travel style is "balanced", find a good compromise between cost and quality.\<newline>\<newline>            Based on the above criteria, select the best hotel and provide the details in the following format:\<newline>            ```\<newline>            {\<newline>                "hotel": {\<newline>                    "name": "value",\<newline>                    "price": "value",\<newline>                    "rating": "value",\<newline>                    "location": "value",\<newline>                    "amenities": "value"\<newline>                }\<newline>            }\<newline>            ```\<newline>\<newline>            Any response other than this format will be rejected by the system.\<newline>            ''\<close>

definition get_best_hotels :: "env \<Rightarrow> backend \<Rightarrow> pyval \<Rightarrow> event list \<Rightarrow> pyval \<times> event list" where
  "get_best_hotels env b hotels_info =
     catch_all
       (and_then (lookup (collected_info b) ''budget_per_person'') (\<lambda>budget_per_person.
        and_then (lift (json_dumps env hotels_info)) (\<lambda>dumped.
        and_then (inference env
                    (Text (best_hotel_prompt budget_per_person (travel_style_of b) dumped))) (\<lambda>resp.
        let resp_start = py_find CHR ''{'' resp;
            resp_end = py_rfind CHR ''}'' resp + 1
        in if resp_start \<noteq> - 1 \<and> resp_end \<noteq> 0
           then lift (loads env (py_slice resp resp_start resp_end))
           else returns (PDict (error_dict ''Could not parse hotel response''))))))
       (\<lambda>e. PDict (error_dict (''Error finding best hotel: '' @ str_exn e)))"

subsection \<open>Hotels\<close>

text \<open>
  \<open>children_ages = "8," * int(number_of_children)\<close>, then
  \<open>children_ages = children_ages[:-1] if children_ages else ""\<close>.
\<close>

definition children_ages_of :: "env \<Rightarrow> int \<Rightarrow> exn + string" where
  "children_ages_of env n =
     (case py_repeat env ''8,'' n of
        Inl e \<Rightarrow> Inl e
      | Inr children_ages \<Rightarrow>
          Inr (if children_ages \<noteq> [] then py_slice children_ages 0 (- 1) else []))"

definition hotels_body :: "env \<Rightarrow> backend \<Rightarrow> pyval comp" where
  "hotels_body env b =
     and_then (lookup (collected_info b) ''destination'') (\<lambda>destination.
     and_then (lookup (collected_info b) ''start_date'') (\<lambda>start_date.
     and_then (lookup (collected_info b) ''end_date'') (\<lambda>end_date.
     and_then (lookup (collected_info b) ''number_of_adults'') (\<lambda>number_of_adults.
     and_then (lookup (collected_info b) ''number_of_children'') (\<lambda>number_of_children.
     and_then (inference env (Text (date_prompt start_date))) (\<lambda>formatted_start_date.
     and_then (inference env (Text (date_prompt end_date))) (\<lambda>formatted_end_date.
     and_then (lift (py_int env number_of_children)) (\<lambda>n.
     and_then (lift (children_ages_of env n)) (\<lambda>children_ages.
     and_then (lift (py_int env number_of_adults)) (\<lambda>adults.
     and_then (lift (py_int env number_of_children)) (\<lambda>children.
     call (SearchHotels destination (py_strip env formatted_start_date)
             (py_strip env formatted_end_date) adults children children_ages)
       (\<lambda>tr. search_hotels env tr destination (py_strip env formatted_start_date)
             (py_strip env formatted_end_date) adults children children_ages))))))))))))"

definition get_hotels_info :: "env \<Rightarrow> backend \<Rightarrow> event list \<Rightarrow> pyval \<times> event list" where
  "get_hotels_info env b =
     catch_all (hotels_body env b)
       (\<lambda>e. PDict (error_dict (''Error getting hotel information: '' @ str_exn e)))"

subsection \<open>Session reset\<close>

definition backend_reset_session :: "backend \<Rightarrow> backend" where
  "backend_reset_session b = b\<lparr>collected_info := Map.empty, conversation_history := []\<rparr>"

section \<open>The destination recommendation (weather.py)\<close>

definition sum_then :: "exn + 'a \<Rightarrow> ('a \<Rightarrow> exn + 'b) \<Rightarrow> exn + 'b" where
  "sum_then r f = (case r of Inl e \<Rightarrow> Inl e | Inr x \<Rightarrow> f x)"

text \<open>\<open>datetime.strptime(s, "%Y-%m-%d")\<close>: the day's number, or ValueError.\<close>

definition parse_date :: "env \<Rightarrow> string \<Rightarrow> exn + int" where
  "parse_date env s = (case strptime env s of Inl msg \<Rightarrow> Inl (PyExn ValueError msg) | Inr d \<Rightarrow> Inr d)"

definition suggestions_prompt :: "pyval \<Rightarrow> string \<Rightarrow> string \<Rightarrow> int \<Rightarrow> string" where
  \<open>suggestions_prompt budget start_date end_date duration =
     ''Given the following travel parameters:\<newline>    - Total Budget: '' @ [CHR 0xE2] @
     [CHR 0x82] @ [CHR 0xB9] @ py_str budget @ ''\<newline>    - Start Date: '' @ start_date @
     ''\<newline>    - End Date: '' @ end_date @ ''\<newline>    - Duration: '' @
     dec_int duration @
     '' days\<newline>\<newline>    Suggest 5 suitable travel destinations that fit within this budget.\<newline>    For each destination, provide only the city name and country.\<newline>\<newline>    Return the response in this exact JSON format:\<newline>    ```\<newline>    [\<newline>        {\<newline>            "destination": "City Name",\<newline>            "country": "Country Name"\<newline>        },\<newline>        ...\<newline>    ]\<newline>    ```\<newline>    Only return the JSON array, no other text.''\<close>

definition get_llm_suggestions :: "env \<Rightarrow> pyval \<Rightarrow> string \<Rightarrow> string \<Rightarrow> pyval comp" where
  "get_llm_suggestions env budget start_date end_date =
     and_then (lift (parse_date env start_date)) (\<lambda>start.
     and_then (lift (parse_date env end_date)) (\<lambda>end_day.
     let duration = (end_day - start) + 1 in
     and_then (inference env (Text (suggestions_prompt budget start_date end_date duration))) (\<lambda>resp.
     lift (loads env (py_slice resp (py_find CHR ''['' resp) (py_find CHR '']'' resp + 1))))))"

text \<open>
  \<open>(start - today).days\<close>: \<open>start\<close> is midnight of the parsed day, \<open>today\<close> is the clock's
  day and the microseconds elapsed in it; the difference is rounded down to whole days.
\<close>

definition days_difference :: "int \<Rightarrow> int \<times> nat \<Rightarrow> int" where
  "days_difference start today = start - fst today - (if snd today > 0 then 1 else 0)"

definition check_date_within_forecast_range :: "env \<Rightarrow> string \<Rightarrow> int \<Rightarrow> bool comp" where
  "check_date_within_forecast_range env start_date max_days =
     and_then (lift (parse_date env start_date)) (\<lambda>start tr.
       let today = datetime_now env tr;
           d = days_difference start today
       in (Inr (0 \<le> d \<and> d \<le> max_days), tr))"

record day_forecast =
  fc_date :: pyval
  temp_max :: pyval
  temp_min :: pyval
  conditions :: pyval
  humidity :: pyval
  rain_chance :: pyval

text \<open>The result of \<open>get_weather_forecast\<close>: a dictionary tagged by its \<open>status\<close>.\<close>

datatype forecast =
    Use_llm string
  | Success "day_forecast list"
  | Failure string

text \<open>The loop of \<open>get_weather_forecast\<close> over the days of the provider's answer.\<close>

fun forecast_days :: "pyval list \<Rightarrow> string \<Rightarrow> string \<Rightarrow> day_forecast list \<Rightarrow> exn + day_forecast list" where
  "forecast_days [] start_date end_date forecasts = Inr forecasts"
| "forecast_days (day # days) start_date end_date forecasts =
     sum_then (getitem_str day ''date'') (\<lambda>d.
     sum_then (gt_str d end_date) (\<lambda>past_end.
     if past_end then Inr forecasts
     else
     sum_then (ge_str d start_date) (\<lambda>in_range.
     if in_range then
       sum_then (getitem_str day ''day'') (\<lambda>day1.
       sum_then (getitem_str day1 ''maxtemp_c'') (\<lambda>tmax.
       sum_then (getitem_str day ''day'') (\<lambda>day2.
       sum_then (getitem_str day2 ''mintemp_c'') (\<lambda>tmin.
       sum_then (getitem_str day ''day'') (\<lambda>day3.
       sum_then (getitem_str day3 ''condition'') (\<lambda>cond.
       sum_then (getitem_str cond ''text'') (\<lambda>ctext.
       sum_then (getitem_str day ''day'') (\<lambda>day4.
       sum_then (getitem_str day4 ''avghumidity'') (\<lambda>hum.
       sum_then (getitem_str day ''day'') (\<lambda>day5.
       sum_then (getitem_str day5 ''daily_chance_of_rain'') (\<lambda>rain.
       forecast_days days start_date end_date
         (forecasts @ [\<lparr>fc_date = d, temp_max = tmax, temp_min = tmin, conditions = ctext,
                         humidity = hum, rain_chance = rain\<rparr>]))))))))))))
     else forecast_days days start_date end_date forecasts)))"

definition forecast_of_data :: "pyval \<Rightarrow> string \<Rightarrow> string \<Rightarrow> exn + day_forecast list" where
  "forecast_of_data data start_date end_date =
     sum_then (py_get data ''forecast'' (PDict [])) (\<lambda>fc.
     sum_then (py_get fc ''forecastday'' (PList [])) (\<lambda>fd.
     sum_then (py_iter fd) (\<lambda>days.
     forecast_days days start_date end_date [])))"

text \<open>
  \<open>get_weather_forecast\<close>. The range check stands before the \<open>try\<close>. Inside it, the
  provider is asked once; a RequestException and any other exception are both turned
  into an error result.
\<close>

definition get_weather_forecast :: "env \<Rightarrow> string \<Rightarrow> string \<Rightarrow> string \<Rightarrow> pyval \<Rightarrow> forecast comp" where
  "get_weather_forecast env place start_date end_date api_key =
     and_then (check_date_within_forecast_range env start_date 14) (\<lambda>within.
     if \<not> within
     then returns (Use_llm ''Date is beyond 14-day forecast range, use LLM suggestion'')
     else
       try_except
         (and_then (call (WeatherGet place) (\<lambda>tr. weather_get_json env tr place)) (\<lambda>data.
          and_then (lift (forecast_of_data data start_date end_date)) (\<lambda>forecasts.
          returns (Success forecasts))))
         (\<lambda>e. if exn_cls e = RequestException
               then returns (Failure (''Weather API error: '' @ str_exn e))
               else returns (Failure (''Unexpected error: '' @ str_exn e))))"

text \<open>The first loop of \<open>get_travel_destination\<close>: one forecast per suggested place.\<close>

fun weather_loop ::
  "env \<Rightarrow> pyval list \<Rightarrow> string \<Rightarrow> string \<Rightarrow> pyval
     \<Rightarrow> (string \<times> day_forecast list) list \<Rightarrow> (string \<times> day_forecast list) list comp" where
  "weather_loop env [] start_date end_date api_key weather_data = returns weather_data"
| "weather_loop env (place # places) start_date end_date api_key weather_data =
     and_then (lift (getitem_str place ''destination'')) (\<lambda>dest.
     and_then (lift (getitem_str place ''country'')) (\<lambda>country.
     let location = py_str dest @ '', '' @ py_str country in
     and_then (get_weather_forecast env location start_date end_date api_key) (\<lambda>weather_result.
     weather_loop env places start_date end_date api_key
       (case weather_result of
          Success forecasts \<Rightarrow> dict_set weather_data location forecasts
        | _ \<Rightarrow> weather_data))))"

definition weather_line :: "day_forecast \<Rightarrow> string" where
  "weather_line day =
     ''- '' @ py_str (fc_date day) @ '': '' @ py_str (conditions day) @ '', ''
       @ py_str (temp_min day) @ [CHR 0xC2, CHR 0xB0] @ ''C to ''
       @ py_str (temp_max day) @ [CHR 0xC2, CHR 0xB0] @ ''C, ''
       @ py_str (rain_chance day) @ ''% chance of rain\<newline>''"

definition weather_summary_of :: "(string \<times> day_forecast list) list \<Rightarrow> string" where
  "weather_summary_of weather_data =
     ''Weather conditions for each destination:\<newline>\<newline>''
       @ concat (map (\<lambda>(location, forecasts).
                    location @ '':\<newline>'' @ concat (map weather_line forecasts) @ ''\<newline>'')
                 weather_data)"

definition rerank_prompt :: "string \<Rightarrow> string \<Rightarrow> string \<Rightarrow> string" where
  \<open>rerank_prompt weather_summary start_date end_date =
     ''Based on the weather forecasts for different destinations:\<newline>\<newline>'' @
     weather_summary @ ''\<newline>\<newline>Travel Dates: '' @ start_date @ '' to '' @
     end_date @
     ''\<newline>\<newline>Analyze the weather conditions and recommend the best destination to visit during these dates.\<newline>Consider factors like temperature, rain probability, and overall conditions.\<newline>Return the suggestions in order of preference (best first).\<newline>\<newline>Return the response in this exact JSON format:\<newline>[\<newline>    {"destination": "City Name", "country": "Country Name"}\<newline>]\<newline>\<newline>Order the destinations from best to worst weather conditions.\<newline>Only return the JSON array, no other text.''\<close>

definition get_travel_destination :: "env \<Rightarrow> string \<Rightarrow> string \<Rightarrow> pyval \<Rightarrow> pyval \<Rightarrow> pyval comp" where
  "get_travel_destination env start_date end_date budget api_key =
     and_then (get_llm_suggestions env budget start_date end_date) (\<lambda>suggested_places.
     and_then (check_date_within_forecast_range env start_date 14) (\<lambda>within.
     if \<not> within then returns suggested_places
     else
     and_then (lift (py_iter suggested_places)) (\<lambda>places.
     and_then (weather_loop env places start_date end_date api_key []) (\<lambda>weather_data.
     if weather_data \<noteq> [] then
       and_then (inference env
                   (Text (rerank_prompt (weather_summary_of weather_data) start_date end_date)))
         (\<lambda>response.
       and_then (lift (loads env (py_slice response (py_find CHR ''['' response)
                                     (py_find CHR '']'' response + 1)))) (\<lambda>ranked.
       lift (getitem_int ranked 0)))
     else returns suggested_places))))"

section \<open>The itinerary composer (backend.py)\<close>

text \<open>
  \<open>GoogleSearch.search\<close> keeps the decoded answer in \<open>query_result\<close>; when the request or
  its decoding raises, the exception is returned, not raised, and \<open>query_result\<close> keeps
  its previous value.
\<close>

definition gs_search :: "env \<Rightarrow> string \<Rightarrow> pyval \<Rightarrow> event list \<Rightarrow> pyval \<times> event list" where
  "gs_search env query query_result tr =
     (case requests_get_json env tr query of
        Inr r \<Rightarrow> (r, tr @ [WebSearch query])
      | Inl e \<Rightarrow> (query_result, tr @ [WebSearch query]))"

definition get_first_link :: "pyval \<Rightarrow> pyval" where
  "get_first_link query_result =
     (case str_in ''items'' query_result of
        Inl e \<Rightarrow> PStr []
      | Inr False \<Rightarrow> PStr []
      | Inr True \<Rightarrow>
          (case sum_then (getitem_str query_result ''items'') (\<lambda>items.
                sum_then (getitem_int items 0) (\<lambda>first.
                getitem_str first ''link'')) of
             Inr link \<Rightarrow> link
           | Inl e \<Rightarrow> PStr []))"

text \<open>
  \<open>asyncio.run(get_data_from_url(first_link))\<close>: \<open>get_data_from_url\<close> is an ordinary
  function that returns the page's text, so \<open>asyncio.run\<close> is handed a string and raises
  ValueError.
\<close>

definition asyncio_run :: "string \<Rightarrow> string comp" where
  "asyncio_run x = raises (PyExn ValueError (''a coroutine was expected, got '' @ repr_str x))"

definition search_queries :: "pyval \<Rightarrow> string list" where
  "search_queries destination =
     [''Must visit places in '' @ py_str destination,
      ''Crowd favourite places in '' @ py_str destination,
      ''Off beat places in '' @ py_str destination,
      ''Best food, drinks, restaurants to try in '' @ py_str destination,
      ''Best shopping places in '' @ py_str destination]"

definition query_prompt :: "string \<Rightarrow> string \<Rightarrow> string" where
  \<open>query_prompt query web_content =
     ''Search Query: '' @ query @ ''\<newline>                    Webpage Content: '' @
     web_content @
     ''\<newline>                    Extract the relevant information from the webpage content based on the search query.\<newline>\<newline>                    If possible extract the cost per person for each activity or place mentioned in the content.\<newline>\<newline>                    If there is no webpage content found, you can use your own knowledge to answer the query.\<newline>                    ''\<close>

text \<open>One round of the loop over the queries, with its own \<open>try\<close> and \<open>except Exception\<close>.\<close>

definition research_query ::
  "env \<Rightarrow> string \<Rightarrow> pyval \<times> (string \<times> pyval) list \<Rightarrow> event list
     \<Rightarrow> (pyval \<times> (string \<times> pyval) list) \<times> event list" where
  "research_query env query st tr =
     (let (query_result, tr1) = gs_search env query (fst st) tr;
          first_link = get_first_link query_result
      in case and_then
                (and_then (call (PageFetch first_link)
                             (\<lambda>tr. Inr (get_data_from_url env tr first_link)))
                   asyncio_run)
                (\<lambda>web_content. inference env (Text (query_prompt query web_content))) tr1 of
           (Inr answer, tr2) \<Rightarrow> ((query_result, dict_set (snd st) query (PStr answer)), tr2)
         | (Inl e, tr2) \<Rightarrow>
             ((query_result,
               dict_set (snd st) query (PStr (''Error retrieving information: '' @ str_exn e))),
              tr2))"

fun research ::
  "env \<Rightarrow> string list \<Rightarrow> pyval \<times> (string \<times> pyval) list \<Rightarrow> event list
     \<Rightarrow> (pyval \<times> (string \<times> pyval) list) \<times> event list" where
  "research env [] st tr = (st, tr)"
| "research env (query # queries) st tr =
     (case research_query env query st tr of (st', tr') \<Rightarrow> research env queries st' tr')"

definition final_prompt ::
  "pyval \<Rightarrow> pyval \<Rightarrow> pyval \<Rightarrow> pyval \<Rightarrow> pyval \<Rightarrow> pyval \<Rightarrow> pyval
     \<Rightarrow> (string \<times> pyval) list \<Rightarrow> pyval \<Rightarrow> string" where
  \<open>final_prompt destination start_date end_date budget_per_person travel_style
       flights_info hotels_info results best_destination =
     ''\<newline>            You are an excellent trip planner who is expert in creating detailed itineraries tailored to customer's need.\<newline>\<newline>            Based on the following information, create a detailed itinerary grouping the activities and places to visit for each day.\<newline>\<newline>            Try to include the places close to each other in the same day.\<newline>\<newline>            Information:\<newline>            ```\<newline>            Destination: '' @
     py_str destination @ ''\<newline>            Start Date: '' @ py_str start_date @
     ''\<newline>            End Date: '' @ py_str end_date @
     ''\<newline>            Budget per person: '' @ py_str budget_per_person @
     ''\<newline>            Travel style: '' @ py_str travel_style @
     ''\<newline>            Flights Info: '' @ py_str flights_info @
     ''\<newline>            Hotels Info: '' @ py_str hotels_info @ ''\<newline>            '' @
     py_str (PDict results) @
     ''\<newline>            ```\<newline>            \<newline>            The budget mention by the user is in INR (Indian Rupees).\<newline>            The cost of flights and hotels provided to you are in USD (US Dollars). Assume 1 USD = 83 INR for conversion.\<newline>            \<newline>            At the end of itinerary:\<newline>            - Make a section to provide additional tips, must try food, sweets and beverages.\<newline>            - Provide a summary of the total cost per person for the entire trip.\<newline>            - Include the list of other important information like local transport, local customs and traditions etc.\<newline>            - Include other famous places/activities which can be added to the itinerary based on user's feedback.\<newline>            - Include the flight details and hotel details in the itinerary.\<newline>\<newline>            At the very end, also include that according to the dates, weather and budget, the best destination to visit is '' @
     py_str best_destination @
     ''.\<newline>            You are allowed to use knowledge of your own in addition to the information provided to create the itinerary.\<newline>            ''\<close>

definition backend_create_itinerary ::
  "env \<Rightarrow> backend \<Rightarrow> pyval \<Rightarrow> pyval \<Rightarrow> event list \<Rightarrow> string \<times> event list" where
  "backend_create_itinerary env b flights_info hotels_info =
     catch_all
       (and_then (lookup (collected_info b) ''destination'') (\<lambda>destination.
        and_then (lookup (collected_info b) ''start_date'') (\<lambda>start_date.
        and_then (lookup (collected_info b) ''end_date'') (\<lambda>end_date.
        and_then (lookup (collected_info b) ''budget_per_person'') (\<lambda>budget_per_person.
        and_then (\<lambda>tr. case research env (search_queries destination) (PNone, []) tr of
                          (st, tr') \<Rightarrow> (Inr (snd st), tr')) (\<lambda>results.
        and_then (inference env (Text (date_prompt start_date))) (\<lambda>formatted_start_date.
        and_then (inference env (Text (date_prompt end_date))) (\<lambda>formatted_end_date.
        and_then (get_travel_destination env formatted_start_date formatted_end_date
                    budget_per_person (weather_key env)) (\<lambda>best_destination.
        inference env
          (Text (final_prompt destination start_date end_date budget_per_person
                   (travel_style_of b) flights_info hotels_info results best_destination)))))))))))
       (\<lambda>e. ''Error creating itinerary: '' @ str_exn e)"

section \<open>The conversation driver (app.py)\<close>

datatype stage = collecting_info | searching_flights_hotels | creating_itinerary | completed

text \<open>
  The session state of one user. \<open>best_flights\<close> and \<open>best_hotels\<close> are attributes that
  \<open>initialize_session_state\<close> does not create: they are absent (\<open>None\<close> here) until
  \<open>search_flights_and_hotels\<close> first assigns them. \<open>flights_info\<close> is Python's \<open>None\<close> or
  the dictionary of the flight search.
\<close>

record session =
  backend :: backend
  messages :: "message list"
  current_stage :: stage
  flights_info :: "(string \<times> pyval) list option"
  hotels_info :: pyval
  itinerary_ready :: bool
  best_flights :: "pyval option"
  best_hotels :: "pyval option"

text \<open>What \<open>initialize_session_state\<close> sets up for a new session.\<close>

definition initial_session :: session where
  "initial_session =
     \<lparr>backend = new_backend, messages = [], current_stage = collecting_info,
      flights_info = None, hotels_info = PNone, itinerary_ready = False,
      best_flights = None, best_hotels = None\<rparr>"

definition reset_session :: "session \<Rightarrow> session" where
  "reset_session s =
     s\<lparr>backend := backend_reset_session (backend s),
       messages := [],
       current_stage := collecting_info,
       flights_info := None,
       hotels_info := PNone,
       itinerary_ready := False\<rparr>"

definition add_message :: "string \<Rightarrow> string \<Rightarrow> session \<Rightarrow> session" where
  "add_message role content s = s\<lparr>messages := messages s @ [(role, content)]\<rparr>"

text \<open>
  How a run of the script ends: at its last line, at \<open>st.rerun()\<close>, or with an exception
  that nothing caught.
\<close>

datatype run_outcome = Finished | Rerun | Crashed exn

definition process_user_input ::
  "env \<Rightarrow> string \<Rightarrow> session \<Rightarrow> event list \<Rightarrow> run_outcome \<times> session \<times> event list" where
  "process_user_input env user_input s0 tr =
     (let s = add_message ''user'' user_input s0
      in if current_stage s = collecting_info then
           (case extract_info_from_input env user_input (backend s) tr of
              (Inl e, b', tr') \<Rightarrow> (Crashed e, s\<lparr>backend := b'\<rparr>, tr')
            | (Inr extracted_info, b', tr') \<Rightarrow>
                (let s1 = s\<lparr>backend := b'\<rparr>
                 in if is_info_complete (backend s1) then
                      (Rerun,
                       (add_message ''assistant''
                          ''Great! I have all the information I need. Let me search for flights and hotels for you...''
                          s1)\<lparr>current_stage := searching_flights_hotels\<rparr>,
                       tr')
                    else
                      (Finished,
                       add_message ''assistant'' (get_missing_fields_message (backend s1)) s1,
                       tr')))
         else (Finished, s, tr))"

definition warning_sign :: string where
  "warning_sign = [CHR 0xE2, CHR 0x9A, CHR 0xA0, CHR 0xEF, CHR 0xB8, CHR 0x8F]"

definition check_mark :: string where
  "check_mark = [CHR 0xE2, CHR 0x9C, CHR 0x85]"

definition party_popper :: string where
  "party_popper = [CHR 0xF0, CHR 0x9F, CHR 0x8E, CHR 0x89]"

text \<open>\<open>isinstance(hotels_info, dict) and "error" in hotels_info\<close>, with the value under the key.\<close>

fun hotels_error :: "pyval \<Rightarrow> pyval option" where
  "hotels_error (PDict kvs) = map_of kvs ''error''"
| "hotels_error v = None"

text \<open>
  \<open>search_flights_and_hotels\<close>, block by block: the two searches under their spinners,
  the two rankings, and the closing assignments.
\<close>

definition flights_block :: "env \<Rightarrow> session \<Rightarrow> event list \<Rightarrow> session \<times> event list" where
  "flights_block env s tr =
     (let (found_flights, tr') = get_flights_info env (backend s) tr
      in (case map_of found_flights ''error'' of
            Some err \<Rightarrow>
              (add_message ''assistant''
                 (warning_sign @ '' Flight search error: '' @ py_str err) s)
                \<lparr>flights_info := None\<rparr>
          | None \<Rightarrow>
              add_message ''assistant'' (check_mark @ '' Found flight options!'')
                (s\<lparr>flights_info := Some found_flights\<rparr>),
          tr'))"

definition hotels_block :: "env \<Rightarrow> session \<Rightarrow> event list \<Rightarrow> session \<times> event list" where
  "hotels_block env s tr =
     (let (found_hotels, tr') = get_hotels_info env (backend s) tr
      in (case hotels_error found_hotels of
            Some err \<Rightarrow>
              (add_message ''assistant''
                 (warning_sign @ '' Hotel search error: '' @ py_str err) s)
                \<lparr>hotels_info := PNone\<rparr>
          | None \<Rightarrow>
              add_message ''assistant'' (check_mark @ '' Found hotel options!'')
                (s\<lparr>hotels_info := found_hotels\<rparr>),
          tr'))"

text \<open>\<open>if st.session_state.flights_info and "error" not in st.session_state.flights_info\<close>\<close>

definition best_flights_block :: "env \<Rightarrow> session \<Rightarrow> event list \<Rightarrow> pyval \<times> session \<times> event list" where
  "best_flights_block env s tr =
     (case flights_info s of
        None \<Rightarrow> (PNone, s, tr)
      | Some kvs \<Rightarrow>
          if kvs \<noteq> [] \<and> ''error'' \<notin> fst ` set kvs then
            (let (best, tr') = find_best_flight env (backend s) (PDict kvs) tr
             in (best,
                 if \<not> py_contains ''error'' (py_str best)
                 then add_message ''assistant''
                        (check_mark @ '' Selected best flights based on your preferences!'') s
                 else s,
                 tr'))
          else (PNone, s, tr))"

text \<open>\<open>if st.session_state.hotels_info and "error" not in str(st.session_state.hotels_info)\<close>\<close>

definition best_hotels_block :: "env \<Rightarrow> session \<Rightarrow> event list \<Rightarrow> pyval \<times> session \<times> event list" where
  "best_hotels_block env s tr =
     (if truthy (hotels_info s) \<and> \<not> py_contains ''error'' (py_str (hotels_info s)) then
        (let (best, tr') = get_best_hotels env (backend s) (hotels_info s) tr
         in (best,
             if \<not> py_contains ''error'' (py_str best)
             then add_message ''assistant''
                    (check_mark @ '' Selected best hotels based on your preferences!'') s
             else s,
             tr'))
      else (PNone, s, tr))"

definition search_flights_and_hotels :: "env \<Rightarrow> session \<Rightarrow> event list \<Rightarrow> session \<times> event list" where
  "search_flights_and_hotels env s0 tr0 =
     (let (s1, tr1) = flights_block env s0 tr0;
          (s2, tr2) = hotels_block env s1 tr1;
          (chosen_flights, s3, tr3) = best_flights_block env s2 tr2;
          (chosen_hotels, s4, tr4) = best_hotels_block env s3 tr3
      in ((add_message ''assistant'' ''Now let me create your personalized itinerary...'' s4)
            \<lparr>current_stage := creating_itinerary,
              best_flights := Some chosen_flights,
              best_hotels := Some chosen_hotels\<rparr>,
          tr4))"

text \<open>\<open>getattr(st.session_state, 'best_flights', None)\<close>\<close>

definition getattr_or_none :: "pyval option \<Rightarrow> pyval" where
  "getattr_or_none a = (case a of Some v \<Rightarrow> v | None \<Rightarrow> PNone)"

definition create_itinerary :: "env \<Rightarrow> session \<Rightarrow> event list \<Rightarrow> session \<times> event list" where
  "create_itinerary env s tr =
     (let (itinerary, tr') =
            backend_create_itinerary env (backend s) (getattr_or_none (best_flights s))
              (getattr_or_none (best_hotels s)) tr
      in ((add_message ''assistant''
             (party_popper @ '' **Your Personalized Travel Itinerary is Ready!**\<newline>\<newline>''
                @ itinerary) s)
            \<lparr>itinerary_ready := True, current_stage := completed\<rparr>,
          tr'))"

definition welcome_msg :: string where
  \<open>welcome_msg =
     ''\<newline>        '' @ [CHR 0xF0] @ [CHR 0x9F] @ [CHR 0x91] @ [CHR 0x8B] @
     '' Hello! I'm Trippy, your AI travel planner. I'll help you create the perfect travel itinerary!\<newline>        \<newline>        To get started, please tell me about your travel plans. I need to know:\<newline>        \<newline>        '' @
     [CHR 0xF0] @ [CHR 0x9F] @ [CHR 0x8F] @ [CHR 0xA0] @
     '' **Departure location** (where you're traveling from)\<newline>        '' @ [CHR 0xF0] @
     [CHR 0x9F] @ [CHR 0x8E] @ [CHR 0xAF] @
     '' **Destination** (where you want to go)\<newline>        '' @ [CHR 0xF0] @ [CHR 0x9F] @
     [CHR 0x93] @ [CHR 0x85] @ '' **Travel dates** (start and end dates)\<newline>        '' @
     [CHR 0xF0] @ [CHR 0x9F] @ [CHR 0x91] @ [CHR 0xA5] @
     '' **Number of travelers** (adults and children)\<newline>        '' @ [CHR 0xF0] @
     [CHR 0x9F] @ [CHR 0x92] @ [CHR 0xB0] @ '' **Budget per person**\<newline>        '' @
     [CHR 0xF0] @ [CHR 0x9F] @ [CHR 0x8E] @ [CHR 0xA8] @
     '' **Travel style** (economy, balanced, or luxury)\<newline>        \<newline>        You can provide all this information at once, or we can go step by step. Just start by telling me about your trip!\<newline>        ''\<close>

text \<open>
  What the user did to start a run of the script: nothing (a rerun), a click on
  "Start New Trip", or a message typed into the chat input.
\<close>

datatype ui_event = No_event | Start_new_trip | Chat_input string

text \<open>
  One run of \<open>main\<close>. The sidebar only reads the state. \<open>st.rerun()\<close> ends the run at once,
  so the lines after it are not reached in that run.
\<close>

definition main :: "env \<Rightarrow> ui_event \<Rightarrow> session \<Rightarrow> event list \<Rightarrow> run_outcome \<times> session \<times> event list" where
  "main env ev s tr =
     (if ev = Start_new_trip then (Rerun, reset_session s, tr)
      else if messages s = [] then (Rerun, add_message ''assistant'' welcome_msg s, tr)
      else if current_stage s = searching_flights_hotels then
        (case search_flights_and_hotels env s tr of (s', tr') \<Rightarrow> (Rerun, s', tr'))
      else if current_stage s = creating_itinerary then
        (case create_itinerary env s tr of (s', tr') \<Rightarrow> (Rerun, s', tr'))
      else if current_stage s = collecting_info
              \<or> (current_stage s = completed \<and> itinerary_ready s) then
        (case ev of
           Chat_input prompt \<Rightarrow>
             (if prompt = [] then (Finished, s, tr)
              else if current_stage s = collecting_info then
                (case process_user_input env prompt s tr of
                   (Finished, s', tr') \<Rightarrow> (Rerun, s', tr')
                 | (outcome, s', tr') \<Rightarrow> (outcome, s', tr'))
              else
                (let s1 = add_message ''user'' prompt s
                 in case inference env
                           (Text (''Based on the travel itinerary I created for you, '' @ prompt)) tr of
                      (Inl e, tr') \<Rightarrow> (Crashed e, s1, tr')
                    | (Inr response, tr') \<Rightarrow> (Rerun, add_message ''assistant'' response s1, tr')))
         | _ \<Rightarrow> (Finished, s, tr))
      else (Finished, s, tr))"

text \<open>
  A session's history: \<open>main\<close> run once for each of a list of user events, each run from
  the state the previous one left.
\<close>

fun runs :: "env \<Rightarrow> ui_event list \<Rightarrow> session \<Rightarrow> event list \<Rightarrow> session \<times> event list" where
  "runs env [] s tr = (s, tr)"
| "runs env (ev # evs) s tr = (case main env ev s tr of (outcome, s', tr') \<Rightarrow> runs env evs s' tr')"

section \<open>Measures and sample collaborators\<close>

text \<open>Events of the model client, and the number of client invocations in a trace.\<close>

fun llm_event :: "event \<Rightarrow> bool" where
  "llm_event TokenRefresh = True"
| "llm_event (Invoke p) = True"
| "llm_event ev = False"

fun invoke_count :: "event list \<Rightarrow> nat" where
  "invoke_count [] = 0"
| "invoke_count (Invoke p # evs) = Suc (invoke_count evs)"
| "invoke_count (ev # evs) = invoke_count evs"

text \<open>The position of a stage in the order of the conversation.\<close>

fun stage_rank :: "stage \<Rightarrow> nat" where
  "stage_rank collecting_info = 0"
| "stage_rank searching_flights_hotels = 1"
| "stage_rank creating_itinerary = 2"
| "stage_rank completed = 3"

text \<open>
  Collaborators for running the program on concrete inputs: a model client that answers
  from a script, one answer per invocation, and fails once the script is used up; a
  decoder that knows a few documents; providers that find nothing; memory for strings
  of less than 2147483648 characters.
\<close>

definition scripted_invoke :: "(exn + string) list \<Rightarrow> event list \<Rightarrow> llm_input \<Rightarrow> exn + string" where
  "scripted_invoke replies tr p =
     (if invoke_count tr < length replies then replies ! invoke_count tr
      else Inl (PyExn OtherError ''connection refused''))"

text \<open>
  Stand-ins for the interpreter's string methods, right on ASCII text: white space is the
  ASCII white space, letters are the 26 of ASCII, and a decimal literal is made of ASCII
  digits, with one sign allowed and single underscores between digits.
\<close>

definition ascii_space :: "char \<Rightarrow> bool" where
  "ascii_space c = (c \<in> set [CHR 0x09, CHR 0x0A, CHR 0x0B, CHR 0x0C, CHR 0x0D,
                                CHR 0x1C, CHR 0x1D, CHR 0x1E, CHR 0x1F, CHR 0x20])"

definition ascii_strip :: "string \<Rightarrow> string" where
  "ascii_strip s = rev (dropWhile ascii_space (rev (dropWhile ascii_space s)))"

definition upper_char :: "char \<Rightarrow> char" where
  "upper_char c =
     (case map_of (zip ''abcdefghijklmnopqrstuvwxyz'' ''ABCDEFGHIJKLMNOPQRSTUVWXYZ'') c of
        Some u \<Rightarrow> u
      | None \<Rightarrow> c)"

definition ascii_upper :: "string \<Rightarrow> string" where
  "ascii_upper s = map upper_char s"

definition is_digit :: "char \<Rightarrow> bool" where
  "is_digit c = (c \<in> set ''0123456789'')"

definition digit_val :: "char \<Rightarrow> int" where
  "digit_val c = int (length (takeWhile (\<lambda>d. d \<noteq> c) ''0123456789''))"

fun int_lit_ok :: "bool \<Rightarrow> string \<Rightarrow> bool" where
  "int_lit_ok need_digit [] = (\<not> need_digit)"
| "int_lit_ok need_digit (c # cs) =
     (if is_digit c then int_lit_ok False cs
      else if c = CHR ''_'' \<and> \<not> need_digit then int_lit_ok True cs
      else False)"

definition digits_val :: "string \<Rightarrow> int" where
  "digits_val cs = foldl (\<lambda>acc c. if is_digit c then acc * 10 + digit_val c else acc) 0 cs"

definition ascii_int :: "string \<Rightarrow> exn + int" where
  "ascii_int s =
     (let t = ascii_strip s;
          neg = (t \<noteq> [] \<and> hd t = CHR ''-'');
          body = (if t \<noteq> [] \<and> (hd t = CHR ''-'' \<or> hd t = CHR ''+'') then tl t else t)
      in if int_lit_ok True body
         then Inr (if neg then - digits_val body else digits_val body)
         else Inl (PyExn ValueError (''invalid literal for int() with base 10: '' @ repr_str s)))"

definition sample_loads :: "string \<Rightarrow> exn + pyval" where
  \<open>sample_loads s =
     (case map_of
        [(''{"destination": "Goa"}'', PDict [(''destination'', PStr ''Goa'')]),
         (''{"number_of_children": 0}'', PDict [(''number_of_children'', PInt 0)]),
         (''{"destination": ""}'', PDict [(''destination'', PStr [])]),
         (''{"source": "Delhi", "destination": "Goa", "start_date": "June 10", "end_date": "June 15", "number_of_adults": "2", "budget_per_person": "20000", "number_of_children": "1", "travel_style": "economy"}'',
            PDict [(''source'', PStr ''Delhi''), (''destination'', PStr ''Goa''),
                   (''start_date'', PStr ''June 10''), (''end_date'', PStr ''June 15''),
                   (''number_of_adults'', PStr ''2''), (''budget_per_person'', PStr ''20000''),
                   (''number_of_children'', PStr ''1''), (''travel_style'', PStr ''economy'')]),
         (''[{"destination": "Goa", "country": "India"}]'',
            PList [PDict [(''destination'', PStr ''Goa''), (''country'', PStr ''India'')]])] s of
        Some v \<Rightarrow> Inr v
      | None \<Rightarrow> Inl (PyExn JSONDecodeError ''Expecting value: line 1 column 1 (char 0)''))\<close>

definition sample_strptime :: "string \<Rightarrow> string + int" where
  "sample_strptime s =
     (if s = ''2025-06-10'' then Inr 739412
      else if s = ''2025-06-15'' then Inr 739417
      else Inl (''time data '' @ repr_str s @ '' does not match format ''
                 @ [CHR 0x27] @ ''%Y-%m-%d'' @ [CHR 0x27]))"

definition sample_env :: "(exn + string) list \<Rightarrow> int \<times> nat \<Rightarrow> env" where
  "sample_env replies today =
     \<lparr>token_expired = (\<lambda>tr. False),
      update_access_token = (\<lambda>tr. None),
      client_invoke = scripted_invoke replies,
      json_loads = sample_loads,
      json_dumps = (\<lambda>v. Inr (py_repr v)),
      search_flights = (\<lambda>tr origin dest day. Inr (PList [])),
      search_hotels = (\<lambda>tr location check_in check_out adults children ages. Inr (PList [])),
      requests_get_json = (\<lambda>tr query. Inr (PDict [])),
      get_data_from_url = (\<lambda>tr url. ''page text''),
      weather_get_json = (\<lambda>tr place. Inr (PDict [])),
      datetime_now = (\<lambda>tr. today),
      strptime = sample_strptime,
      weather_key = PStr ''key'',
      py_strip = ascii_strip,
      py_upper = ascii_upper,
      int_of_str = ascii_int,
      can_allocate = (\<lambda>k. int k < 2147483648)\<rparr>"

definition goa_backend :: backend where
  "goa_backend =
     \<lparr>collected_info = [''destination'' \<mapsto> PStr ''Goa''], conversation_history = []\<rparr>"

definition chatting_session :: "backend \<Rightarrow> session" where
  "chatting_session b =
     initial_session\<lparr>backend := b, messages := [(''assistant'', welcome_msg)]\<rparr>"

definition empty_destination_env :: env where
  \<open>empty_destination_env = sample_env [Inr ''Sure: {"destination": ""} (none given)''] (0, 0)\<close>

definition zero_children_env :: env where
  \<open>zero_children_env = sample_env [Inr ''{"number_of_children": 0}''] (0, 0)\<close>

text \<open>The part of a reply that the extraction hands to the decoder.\<close>

definition json_part :: "string \<Rightarrow> string" where
  "json_part reply = py_slice reply (py_find CHR ''{'' reply) (py_rfind CHR ''}'' reply + 1)"

definition no_json_env :: env where
  "no_json_env = sample_env [Inr ''I could not find any trip details.''] (0, 0)"

text \<open>
  A computation adds only events of a kind \<open>P\<close>: whatever trace it starts from, the trace it
  leaves is that trace followed by events that satisfy \<open>P\<close>.
\<close>

definition adds :: "(event \<Rightarrow> bool) \<Rightarrow> 'a comp \<Rightarrow> bool" where
  "adds P m = (\<forall>tr r tr'. m tr = (r, tr') \<longrightarrow> (\<exists>evs. tr' = tr @ evs \<and> list_all P evs))"

text \<open>A collected record with all eight fields, as an extraction would leave it.\<close>

definition trip_backend :: backend where
  "trip_backend =
     \<lparr>collected_info =
        map_of [(''source'', PStr ''Delhi''), (''destination'', PStr ''Goa''),
                (''start_date'', PStr ''June 10''), (''end_date'', PStr ''June 15''),
                (''number_of_adults'', PStr ''2''), (''budget_per_person'', PStr ''20000''),
                (''number_of_children'', PStr ''2''), (''travel_style'', PStr ''economy'')],
      conversation_history = []\<rparr>"


text \<open>What \<open>search_flights_and_hotels\<close> keeps of a search result: nothing when it is an error.\<close>

definition stored_flights :: "(string \<times> pyval) list \<Rightarrow> (string \<times> pyval) list option" where
  "stored_flights found = (case map_of found ''error'' of Some err \<Rightarrow> None | None \<Rightarrow> Some found)"

definition stored_hotels :: "pyval \<Rightarrow> pyval" where
  "stored_hotels found = (case hotels_error found of Some err \<Rightarrow> PNone | None \<Rightarrow> found)"

definition full_reply :: string where
  \<open>full_reply = ''Here you go: {"source": "Delhi", "destination": "Goa", "start_date": "June 10", "end_date": "June 15", "number_of_adults": "2", "budget_per_person": "20000", "number_of_children": "1", "travel_style": "economy"}''\<close>

definition full_reply_env :: env where
  "full_reply_env = sample_env [Inr full_reply] (0, 0)"





text \<open>
  A decoder with a recursion limit, as the interpreter has one: it gives up with a
  RecursionError on a text that opens more than \<open>limit\<close> brackets without closing them,
  and decodes like the sample decoder otherwise. \<open>deep_reply\<close> is a reply of the model
  with 100000 arrays nested in each other.
\<close>

fun too_deep :: "nat \<Rightarrow> nat \<Rightarrow> string \<Rightarrow> bool" where
  "too_deep limit d [] = False"
| "too_deep limit d (c # cs) =
     (if c = CHR ''['' \<or> c = CHR ''{'' then limit \<le> d \<or> too_deep limit (Suc d) cs
      else if c = CHR '']'' \<or> c = CHR ''}'' then too_deep limit (d - 1) cs
      else too_deep limit d cs)"

definition recursion_error :: exn where
  "recursion_error =
     PyExn RecursionError
       ''maximum recursion depth exceeded while decoding a JSON array from a unicode string''"

definition limited_loads :: "nat \<Rightarrow> string \<Rightarrow> exn + pyval" where
  "limited_loads limit s = (if too_deep limit 0 s then Inl recursion_error else sample_loads s)"

definition deep_nesting :: nat where
  "deep_nesting = 100000"

definition deep_reply :: string where
  \<open>deep_reply =
     ''{"a": '' @ replicate deep_nesting CHR ''['' @ replicate deep_nesting CHR '']'' @ ''}''\<close>

definition deep_env :: env where
  "deep_env = (sample_env [Inr deep_reply] (0, 0))\<lparr>json_loads := limited_loads 1000\<rparr>"


text \<open>
  A hotel provider that finds one hotel and reports the children's ages it was asked
  for. Two scripts for the model: no airport for the source; and the source resolved,
  no airport for the destination. Both go on with the two dates of the hotel search.
\<close>

definition sea_view :: "event list \<Rightarrow> pyval \<Rightarrow> string \<Rightarrow> string \<Rightarrow> int \<Rightarrow> int \<Rightarrow> string \<Rightarrow> exn + pyval" where
  "sea_view tr location check_in check_out adults children ages =
     Inr (PList [PDict [(''name'', PStr ''Sea View''), (''children_ages'', PStr ages)]])"

definition no_airport_env :: env where
  "no_airport_env =
     (sample_env [Inr '' n/a\<newline>'', Inr ''2025-06-10'', Inr ''2025-06-15''] (0, 0))
       \<lparr>search_hotels := sea_view\<rparr>"

definition no_destination_env :: env where
  "no_destination_env =
     (sample_env [Inr ''DEL'', Inr ''N/A'', Inr ''2025-06-10'', Inr ''2025-06-15''] (0, 0))
       \<lparr>search_hotels := sea_view\<rparr>"

section \<open>Properties\<close>

subsection \<open>Computations\<close>

declare inference_loop.simps [simp del]

lemma and_then_returns [simp]: "and_then (returns x) f = f x"
  by (rule ext) (simp add: and_then_def returns_def)

lemma and_then_raises [simp]: "and_then (raises e) f = raises e"
  by (rule ext) (simp add: and_then_def raises_def)

lemma lift_Inr [simp]: "lift (Inr x) = returns x"
  by (rule ext) (simp add: lift_def returns_def)

lemma lift_Inl [simp]: "lift (Inl e) = raises e"
  by (rule ext) (simp add: lift_def raises_def)

subsection \<open>The model client\<close>

lemma attempt_trace:
  "attempt env p tr = (r, tr') \<Longrightarrow>
     \<exists>evs. tr' = tr @ evs \<and> list_all llm_event evs \<and> invoke_count evs \<le> 1"
  by (auto simp: attempt_def and_then_def call_def split: if_splits option.splits)

lemma invoke_count_append [simp]: "invoke_count (xs @ ys) = invoke_count xs + invoke_count ys"
  by (induction xs rule: invoke_count.induct) auto

text \<open>
  The loop adds only events of the model client, and invokes the client at most once
  for each retry it has left.
\<close>

lemma inference_loop_trace:
  "inference_loop env p err retries response tr = (st, tr') \<Longrightarrow>
     \<exists>evs. tr' = tr @ evs \<and> list_all llm_event evs
       \<and> invoke_count evs \<le> (if err then max_retries - retries else 0)"
proof (induction env p err retries response tr arbitrary: st tr' rule: inference_loop.induct)
  case (1 env prompt err retries response tr)
  show ?case
  proof (cases "err \<and> retries < max_retries")
    case False
    with "1.prems" show ?thesis
      by (subst (asm) inference_loop.simps) auto
  next
    case True
    obtain r tr1 where a: "attempt env prompt tr = (r, tr1)"
      by (cases "attempt env prompt tr")
    from attempt_trace[OF a] obtain evs1
      where e1: "tr1 = tr @ evs1" "list_all llm_event evs1" "invoke_count evs1 \<le> 1"
      by blast
    show ?thesis
    proof (cases r)
      case (Inl e)
      with True a "1.prems"
      have "inference_loop env prompt err (Suc retries) response tr1 = (st, tr')"
        by (subst (asm) inference_loop.simps) simp
      from "1.IH"(1)[OF True a[symmetric] Inl this] obtain evs2
        where "tr' = tr1 @ evs2" "list_all llm_event evs2"
          "invoke_count evs2 \<le> (if err then max_retries - Suc retries else 0)"
        by blast
      with e1 True show ?thesis
        by (intro exI[of _ "evs1 @ evs2"]) auto
    next
      case (Inr x)
      with True a "1.prems"
      have "inference_loop env prompt False retries (Some x) tr1 = (st, tr')"
        by (subst (asm) inference_loop.simps) simp
      from "1.IH"(2)[OF True a[symmetric] Inr this] obtain evs2
        where "tr' = tr1 @ evs2" "list_all llm_event evs2" "invoke_count evs2 \<le> 0"
        by auto
      with e1 True show ?thesis
        by (intro exI[of _ "evs1 @ evs2"]) auto
    qed
  qed
qed

lemma inference_trace:
  "inference env p tr = (r, tr') \<Longrightarrow>
     \<exists>evs. tr' = tr @ evs \<and> list_all llm_event evs \<and> invoke_count evs \<le> 5"
proof -
  assume a: "inference env p tr = (r, tr')"
  obtain st tr1 where l: "inference_loop env p True 0 None tr = (st, tr1)"
    by (cases "inference_loop env p True 0 None tr")
  with a have "tr' = tr1"
    by (auto simp: inference_def split: prod.splits option.splits)
  with inference_loop_trace[OF l] show ?thesis
    by (simp add: max_retries_def)
qed

text \<open>
  What leaves \<open>inference\<close> is the reply of an attempt that succeeded, or the
  UnboundLocalError of its last line; no exception of the client itself.
\<close>

lemma inference_outcome:
  "inference env p tr = (r, tr') \<Longrightarrow>
     (\<exists>reply. r = Inr reply) \<or> (\<exists>msg. r = Inl (PyExn UnboundLocalError msg))"
  by (auto simp: inference_def split: prod.splits option.splits)

text \<open>
  Claim C2, at a client that fails every time it is invoked (here with "connection
  refused"). \<open>inference\<close> invokes it five times and then raises UnboundLocalError
  from \<open>return response.content\<close>: no attempt has bound \<open>response\<close>. The caller receives
  neither a reply nor a failure that reports the exhausted retries.
\<close>

theorem inference_exhausted_raises_unbound_local:
  "inference (sample_env [] (0, 0)) (Text ''What is the short form of Goa airport?'') [] =
     (Inl (PyExn UnboundLocalError
        (''cannot access local variable '' @ [CHR 0x27] @ ''response'' @ [CHR 0x27]
           @ '' where it is not associated with a value'')),
      replicate 5 (Invoke (Text ''What is the short form of Goa airport?'')))"
  by code_simp

subsection \<open>Completeness check\<close>

lemma get_missing_fields_unfold:
  "get_missing_fields b =
     filter (is_missing b)
       [''source'', ''destination'', ''start_date'', ''end_date'', ''number_of_adults'',
        ''budget_per_person'', ''number_of_children'', ''travel_style'']"
  by (simp only: get_missing_fields_def required_fields_def)

text \<open>
  Claim C1, as the code has it. \<open>get_missing_fields\<close> returns exactly the required fields
  that are absent from the collected record or hold a falsy value, each once, in the
  order in which \<open>required_fields\<close> declares them: source, destination, start_date,
  end_date, number_of_adults, budget_per_person, number_of_children, travel_style
  (the budget stands before the child count). For a record that holds only a truthy
  destination, the other seven are returned in that order.
\<close>

theorem get_missing_fields_declared_order:
  "get_missing_fields b =
     filter (\<lambda>f. case collected_info b f of None \<Rightarrow> True | Some v \<Rightarrow> \<not> truthy v)
       [''source'', ''destination'', ''start_date'', ''end_date'', ''number_of_adults'',
        ''budget_per_person'', ''number_of_children'', ''travel_style'']
   \<and> (truthy v \<and> collected_info b = [''destination'' \<mapsto> v] \<longrightarrow>
        get_missing_fields b =
          [''source'', ''start_date'', ''end_date'', ''number_of_adults'',
           ''budget_per_person'', ''number_of_children'', ''travel_style''])"
proof (intro conjI impI)
  have "is_missing b = (\<lambda>f. case collected_info b f of None \<Rightarrow> True | Some v \<Rightarrow> \<not> truthy v)"
    by (rule ext) (simp add: is_missing_def)
  then show "get_missing_fields b =
     filter (\<lambda>f. case collected_info b f of None \<Rightarrow> True | Some v \<Rightarrow> \<not> truthy v)
       [''source'', ''destination'', ''start_date'', ''end_date'', ''number_of_adults'',
        ''budget_per_person'', ''number_of_children'', ''travel_style'']"
    by (simp only: get_missing_fields_unfold)
next
  assume a: "truthy v \<and> collected_info b = [''destination'' \<mapsto> v]"
  then show "get_missing_fields b =
          [''source'', ''start_date'', ''end_date'', ''number_of_adults'',
           ''budget_per_person'', ''number_of_children'', ''travel_style'']"
    by (simp add: get_missing_fields_unfold is_missing_def)
qed

theorem get_missing_fields_declared_order_witness:
  "get_missing_fields \<lparr>collected_info = [''destination'' \<mapsto> PStr ''Goa''], conversation_history = []\<rparr>
     = [''source'', ''start_date'', ''end_date'', ''number_of_adults'',
        ''budget_per_person'', ''number_of_children'', ''travel_style'']"
  using get_missing_fields_declared_order
    [of "\<lparr>collected_info = [''destination'' \<mapsto> PStr ''Goa''], conversation_history = []\<rparr>"
        "PStr ''Goa''"]
  by simp

text \<open>
  The order the claim lists (the child count before the budget) is not the order of the
  result: with only the destination set, the two lists differ.
\<close>

theorem get_missing_fields_claimed_order_counterexample:
  "get_missing_fields \<lparr>collected_info = [''destination'' \<mapsto> PStr ''Goa''], conversation_history = []\<rparr>
     \<noteq> [''source'', ''start_date'', ''end_date'', ''number_of_adults'',
        ''number_of_children'', ''budget_per_person'', ''travel_style'']"
  by (simp add: get_missing_fields_unfold is_missing_def)

subsection \<open>Merging an extraction into the collected record\<close>

lemma dict_update_Nil [simp]: "dict_update d [] = d"
  by (simp add: dict_update_def)

lemma dict_update_Cons [simp]:
  "dict_update d (kv # kvs) = dict_update (d(fst kv \<mapsto> snd kv)) kvs"
  by (simp add: dict_update_def)

lemma dict_update_absent: "k \<notin> fst ` set kvs \<Longrightarrow> dict_update d kvs k = d k"
  by (induction kvs arbitrary: d) auto

lemma dict_update_present:
  "k \<in> fst ` set kvs \<Longrightarrow> \<exists>v. (k, v) \<in> set kvs \<and> dict_update d kvs k = Some v"
proof (induction kvs arbitrary: d)
  case Nil
  then show ?case by simp
next
  case (Cons kv kvs)
  show ?case
  proof (cases "k \<in> fst ` set kvs")
    case True
    from Cons.IH[OF True, of "d(fst kv \<mapsto> snd kv)"]
    obtain v where "(k, v) \<in> set kvs" "dict_update (d(fst kv \<mapsto> snd kv)) kvs k = Some v"
      by blast
    then show ?thesis by (intro exI[of _ v]) simp
  next
    case False
    with Cons.prems have "fst kv = k" by auto
    with False show ?thesis by (cases kv) (auto simp: dict_update_absent)
  qed
qed

text \<open>A key of the merged record holds what it held, or a truthy value of the extraction.\<close>

lemma merge_cases:
  "dict_update d (filter (\<lambda>kv. truthy (snd kv)) items) k = d k
   \<or> (\<exists>v. (k, v) \<in> set items \<and> truthy v
          \<and> dict_update d (filter (\<lambda>kv. truthy (snd kv)) items) k = Some v)"
proof (cases "k \<in> fst ` set (filter (\<lambda>kv. truthy (snd kv)) items)")
  case True
  from dict_update_present[OF True, of d] show ?thesis by auto
next
  case False
  then show ?thesis by (simp add: dict_update_absent)
qed

lemma merge_falsy_unchanged:
  assumes "\<forall>v. (k, v) \<in> set items \<longrightarrow> \<not> truthy v"
  shows "dict_update d (filter (\<lambda>kv. truthy (snd kv)) items) k = d k"
  using merge_cases[of d items k] assms by auto

lemma merge_keeps_set:
  assumes "\<not> is_missing b k"
  shows "\<not> is_missing
            (b\<lparr>collected_info :=
                 dict_update (collected_info b) (filter (\<lambda>kv. truthy (snd kv)) items),
               conversation_history := h\<rparr>) k"
  using merge_cases[of "collected_info b" items k] assms
  by (auto simp: is_missing_def split: option.splits)

text \<open>The two ways \<open>extract_info_from_input\<close> leaves the backend: untouched, or merged.\<close>

lemma extract_cases:
  assumes "extract_info_from_input env u b tr = (r, b', tr')"
  shows "b' = b \<or>
    (\<exists>items reply. r = Inr (PDict items) \<and>
       b' = b\<lparr>collected_info :=
                 dict_update (collected_info b) (filter (\<lambda>kv. truthy (snd kv)) items),
              conversation_history :=
                 conversation_history b @ [(''user'', u), (''assistant'', reply)]\<rparr>)"
proof -
  let ?c = "Conversation (conversation_history b @ [(''user'', extract_prompt u)])"
  obtain ri tr1 where i: "inference env ?c tr = (ri, tr1)"
    by (cases "inference env ?c tr")
  show ?thesis
  proof (cases ri)
    case (Inl e)
    with assms i show ?thesis
      by (simp add: extract_info_from_input_def Let_def)
  next
    case reply: (Inr reply)
    let ?j = "json_loads env
                (py_slice reply (py_find CHR ''{'' reply) (py_rfind CHR ''}'' reply + 1))"
    show ?thesis
    proof (cases ?j)
      case (Inl e)
      with assms i reply show ?thesis
        by (simp add: extract_info_from_input_def Let_def split: if_splits)
    next
      case info: (Inr info)
      show ?thesis
      proof (cases "py_items info")
        case (Inl e)
        with assms i reply info show ?thesis
          by (simp add: extract_info_from_input_def Let_def split: if_splits)
      next
        case (Inr items)
        then have d: "info = PDict items"
          by (auto elim: py_items.elims)
        from assms i reply info Inr
        have "b' = b \<or> (r = Inr info \<and>
                b' = b\<lparr>collected_info :=
                         dict_update (collected_info b) (filter (\<lambda>kv. truthy (snd kv)) items),
                       conversation_history :=
                         conversation_history b @ [(''user'', u), (''assistant'', reply)]\<rparr>)"
          by (simp add: extract_info_from_input_def Let_def split: if_splits)
        with d show ?thesis
          by blast
      qed
    qed
  qed
qed

lemma extract_keeps_set:
  assumes "extract_info_from_input env u b tr = (r, b', tr')" "\<not> is_missing b k"
  shows "\<not> is_missing b' k"
  using extract_cases[OF assms(1)] assms(2) merge_keeps_set by auto

lemma extract_falsy_unchanged:
  assumes "extract_info_from_input env u b tr = (Inr (PDict items), b', tr')"
    and "\<forall>v. (k, v) \<in> set items \<longrightarrow> \<not> truthy v"
  shows "collected_info b' k = collected_info b k"
  using extract_cases[OF assms(1)] assms(2) by (auto simp: merge_falsy_unchanged)

lemma missing_not_complete:
  assumes "is_missing b k" "k \<in> set required_fields"
  shows "\<not> is_info_complete b"
proof -
  from assms have "k \<in> set (get_missing_fields b)"
    by (simp add: get_missing_fields_def)
  then show ?thesis
    by (auto simp: is_info_complete_def)
qed

subsection \<open>The blocks of the driver\<close>

lemma add_message_fields [simp]:
  "backend (add_message r c s) = backend s"
  "current_stage (add_message r c s) = current_stage s"
  "flights_info (add_message r c s) = flights_info s"
  "hotels_info (add_message r c s) = hotels_info s"
  "best_flights (add_message r c s) = best_flights s"
  "best_hotels (add_message r c s) = best_hotels s"
  "itinerary_ready (add_message r c s) = itinerary_ready s"
  "messages (add_message r c s) = messages s @ [(r, c)]"
  by (simp_all add: add_message_def)

lemma flights_block_fields [simp]:
  "backend (fst (flights_block env s tr)) = backend s"
  "current_stage (fst (flights_block env s tr)) = current_stage s"
  by (simp_all add: flights_block_def Let_def split: prod.splits option.splits)

lemma hotels_block_fields [simp]:
  "backend (fst (hotels_block env s tr)) = backend s"
  "current_stage (fst (hotels_block env s tr)) = current_stage s"
  by (simp_all add: hotels_block_def Let_def split: prod.splits option.splits)

lemma best_flights_block_fields [simp]:
  "backend (fst (snd (best_flights_block env s tr))) = backend s"
  "current_stage (fst (snd (best_flights_block env s tr))) = current_stage s"
  by (simp_all add: best_flights_block_def Let_def split: prod.splits option.splits)

lemma best_hotels_block_fields [simp]:
  "backend (fst (snd (best_hotels_block env s tr))) = backend s"
  "current_stage (fst (snd (best_hotels_block env s tr))) = current_stage s"
  by (simp_all add: best_hotels_block_def Let_def split: prod.splits option.splits)

lemma search_flights_and_hotels_backend:
  "backend (fst (search_flights_and_hotels env s tr)) = backend s"
  by (simp add: search_flights_and_hotels_def Let_def case_prod_unfold)

lemma search_flights_and_hotels_stage:
  "current_stage (fst (search_flights_and_hotels env s tr)) = creating_itinerary"
  by (simp add: search_flights_and_hotels_def Let_def case_prod_unfold)

lemma create_itinerary_backend:
  "backend (fst (create_itinerary env s tr)) = backend s"
  by (simp add: create_itinerary_def Let_def split: prod.splits)

lemma create_itinerary_stage:
  "current_stage (fst (create_itinerary env s tr)) = completed"
  by (simp add: create_itinerary_def Let_def split: prod.splits)

text \<open>What \<open>process_user_input\<close> does, by the stage it starts in and the extraction's result.\<close>

lemma process_user_input_cases:
  assumes "process_user_input env u s tr = (out, s', tr')"
  shows "(current_stage s \<noteq> collecting_info \<and> out = Finished \<and> backend s' = backend s
            \<and> current_stage s' = current_stage s)
       \<or> (current_stage s = collecting_info \<and>
           (\<exists>r b'. extract_info_from_input env u (backend s) tr = (r, b', tr') \<and> backend s' = b' \<and>
              (case r of
                 Inl e \<Rightarrow> out = Crashed e \<and> current_stage s' = collecting_info
               | Inr info \<Rightarrow>
                   if is_info_complete b'
                   then out = Rerun \<and> current_stage s' = searching_flights_hotels
                   else out = Finished \<and> current_stage s' = collecting_info)))"
  using assms
  by (auto simp: process_user_input_def Let_def split: prod.splits sum.splits if_splits)

text \<open>The branches of a run of \<open>main\<close>.\<close>

lemma main_cases:
  assumes "main env ev s tr = (out, s', tr')"
  shows "(ev = Start_new_trip \<and> s' = reset_session s)
       \<or> (ev \<noteq> Start_new_trip \<and> messages s = [] \<and> backend s' = backend s
            \<and> current_stage s' = current_stage s)
       \<or> (ev \<noteq> Start_new_trip \<and> messages s \<noteq> [] \<and> current_stage s = searching_flights_hotels
            \<and> (s', tr') = search_flights_and_hotels env s tr)
       \<or> (ev \<noteq> Start_new_trip \<and> messages s \<noteq> [] \<and> current_stage s = creating_itinerary
            \<and> (s', tr') = create_itinerary env s tr)
       \<or> (ev \<noteq> Start_new_trip \<and> messages s \<noteq> [] \<and> current_stage s = collecting_info
            \<and> (\<exists>p out1. ev = Chat_input p \<and> p \<noteq> []
                  \<and> process_user_input env p s tr = (out1, s', tr')))
       \<or> (ev \<noteq> Start_new_trip \<and> backend s' = backend s \<and> current_stage s' = current_stage s)"
  using assms
  by (auto simp: main_def Let_def
           split: prod.splits sum.splits if_splits ui_event.splits run_outcome.splits)

lemma main_keeps_set:
  assumes "main env ev s tr = (out, s', tr')" "ev \<noteq> Start_new_trip"
    and "\<not> is_missing (backend s) k"
  shows "\<not> is_missing (backend s') k"
proof -
  from main_cases[OF assms(1)] assms(2)
  consider (same) "backend s' = backend s"
    | (search) "(s', tr') = search_flights_and_hotels env s tr"
    | (create) "(s', tr') = create_itinerary env s tr"
    | (input) p out1 where "process_user_input env p s tr = (out1, s', tr')"
    by blast
  then show ?thesis
  proof cases
    case same
    with assms(3) show ?thesis by simp
  next
    case search
    then have "s' = fst (search_flights_and_hotels env s tr)" by (metis fst_conv)
    with assms(3) show ?thesis by (simp add: search_flights_and_hotels_backend)
  next
    case create
    then have "s' = fst (create_itinerary env s tr)" by (metis fst_conv)
    with assms(3) show ?thesis by (simp add: create_itinerary_backend)
  next
    case input
    from process_user_input_cases[OF input] assms(3) show ?thesis
      by (auto dest: extract_keeps_set)
  qed
qed

text \<open>
  Claim C4. A field of the collected record that holds a truthy value still holds one
  after an extraction, whatever the model replied, and after any run of the driver that
  is not the full reset ("Start New Trip"). When every value the parsed record gives for
  the field is falsy, which includes the record that omits it, the extraction leaves the
  field's value as it was.
\<close>

theorem merge_monotonic:
  "(\<not> is_missing b k \<and> extract_info_from_input env u b tr = (r, b', tr') \<longrightarrow> \<not> is_missing b' k)
   \<and> (ev \<noteq> Start_new_trip \<and> \<not> is_missing (backend s) k \<and> main env ev s tr0 = (out, s', tr0')
        \<longrightarrow> \<not> is_missing (backend s') k)
   \<and> (extract_info_from_input env u b tr = (Inr (PDict items), b', tr')
        \<and> (\<forall>v. (k, v) \<in> set items \<longrightarrow> \<not> truthy v)
        \<longrightarrow> collected_info b' k = collected_info b k)"
proof (intro conjI impI)
  assume "\<not> is_missing b k \<and> extract_info_from_input env u b tr = (r, b', tr')"
  then show "\<not> is_missing b' k" using extract_keeps_set by blast
next
  assume "ev \<noteq> Start_new_trip \<and> \<not> is_missing (backend s) k
            \<and> main env ev s tr0 = (out, s', tr0')"
  then show "\<not> is_missing (backend s') k" using main_keeps_set by blast
next
  assume "extract_info_from_input env u b tr = (Inr (PDict items), b', tr')
            \<and> (\<forall>v. (k, v) \<in> set items \<longrightarrow> \<not> truthy v)"
  then show "collected_info b' k = collected_info b k"
    using extract_falsy_unchanged by blast
qed

theorem merge_monotonic_witness:
  "fst (extract_info_from_input empty_destination_env ''anywhere'' goa_backend [])
      = Inr (PDict [(''destination'', PStr [])])
   \<and> \<not> is_missing
         (fst (snd (extract_info_from_input empty_destination_env ''anywhere'' goa_backend [])))
         ''destination''
   \<and> collected_info
         (fst (snd (extract_info_from_input empty_destination_env ''anywhere'' goa_backend [])))
         ''destination''
        = Some (PStr ''Goa'')
   \<and> \<not> is_missing
         (backend (fst (snd (main empty_destination_env (Chat_input ''anywhere'')
                               (chatting_session goa_backend) []))))
         ''destination''"
proof -
  let ?X = "extract_info_from_input empty_destination_env ''anywhere'' goa_backend []"
  let ?M = "main empty_destination_env (Chat_input ''anywhere'') (chatting_session goa_backend) []"
  have e: "fst ?X = Inr (PDict [(''destination'', PStr [])])"
    by code_simp
  have g: "\<not> is_missing goa_backend ''destination''"
    by (simp add: is_missing_def goa_backend_def)
  have c: "collected_info goa_backend ''destination'' = Some (PStr ''Goa'')"
    by (simp add: goa_backend_def)
  have x: "?X = (Inr (PDict [(''destination'', PStr [])]), fst (snd ?X), snd (snd ?X))"
    using e by (metis prod.collapse)
  have m: "?M = (fst ?M, fst (snd ?M), snd (snd ?M))"
    by simp
  show ?thesis
    using merge_monotonic[where b = goa_backend and k = "''destination''"
        and env = empty_destination_env and u = "''anywhere''" and tr = "[]"
        and r = "Inr (PDict [(''destination'', PStr [])])"
        and b' = "fst (snd ?X)" and tr' = "snd (snd ?X)"
        and items = "[(''destination'', PStr [])]"
        and ev = "Chat_input ''anywhere''" and s = "chatting_session goa_backend"
        and ?tr0.0 = "[]"
        and out = "fst ?M" and s' = "fst (snd ?M)" and tr0' = "snd (snd ?M)"]
      e g c x m
    by (simp add: chatting_session_def)
qed

text \<open>
  Claim C10. The merge keeps only the truthy values of the parsed record: the empty
  string, \<open>None\<close> (JSON null) and the integer 0 are falsy, and after an extraction every
  key of the collected record holds what it held before or a truthy value of the parsed
  record. So when the field number_of_children is missing and the parsed record reports
  it as the integer 0, the field is still missing after the extraction and the
  completeness check is false.
\<close>

theorem merge_discards_falsy:
  "\<not> truthy (PStr []) \<and> \<not> truthy PNone \<and> \<not> truthy (PInt 0)
   \<and> (extract_info_from_input env u b tr = (Inr (PDict items), b', tr') \<longrightarrow>
        (\<forall>k. collected_info b' k = collected_info b k
             \<or> (\<exists>v. (k, v) \<in> set items \<and> truthy v \<and> collected_info b' k = Some v)))
   \<and> (extract_info_from_input env u b tr = (Inr (PDict items), b', tr')
        \<and> is_missing b ''number_of_children''
        \<and> map_of items ''number_of_children'' = Some (PInt 0) \<and> distinct (map fst items)
        \<longrightarrow> is_missing b' ''number_of_children'' \<and> \<not> is_info_complete b')"
proof (intro conjI impI allI)
  show "\<not> truthy (PStr [])" "\<not> truthy PNone" "\<not> truthy (PInt 0)" by simp_all
next
  fix k
  assume a: "extract_info_from_input env u b tr = (Inr (PDict items), b', tr')"
  from extract_cases[OF a] merge_cases[of "collected_info b" items k]
  show "collected_info b' k = collected_info b k
          \<or> (\<exists>v. (k, v) \<in> set items \<and> truthy v \<and> collected_info b' k = Some v)"
    by auto
next
  assume a: "extract_info_from_input env u b tr = (Inr (PDict items), b', tr')
        \<and> is_missing b ''number_of_children''
        \<and> map_of items ''number_of_children'' = Some (PInt 0) \<and> distinct (map fst items)"
  then have "\<forall>v. (''number_of_children'', v) \<in> set items \<longrightarrow> \<not> truthy v"
    by auto
  with a have "collected_info b' ''number_of_children'' = collected_info b ''number_of_children''"
    using extract_falsy_unchanged by blast
  with a show m: "is_missing b' ''number_of_children''"
    by (simp add: is_missing_def)
  then show "\<not> is_info_complete b'"
    by (rule missing_not_complete) (simp add: required_fields_def)
qed

theorem merge_discards_falsy_witness:
  "fst (extract_info_from_input zero_children_env ''no kids'' goa_backend [])
      = Inr (PDict [(''number_of_children'', PInt 0)])
   \<and> is_missing (fst (snd (extract_info_from_input zero_children_env ''no kids'' goa_backend [])))
        ''number_of_children''
   \<and> \<not> is_info_complete
         (fst (snd (extract_info_from_input zero_children_env ''no kids'' goa_backend [])))"
proof -
  let ?X = "extract_info_from_input zero_children_env ''no kids'' goa_backend []"
  have e: "fst ?X = Inr (PDict [(''number_of_children'', PInt 0)])"
    by code_simp
  have g: "is_missing goa_backend ''number_of_children''"
    by (simp add: is_missing_def goa_backend_def)
  have x: "?X = (Inr (PDict [(''number_of_children'', PInt 0)]), fst (snd ?X), snd (snd ?X))"
    using e by (metis prod.collapse)
  show ?thesis
    using merge_discards_falsy[where env = zero_children_env and u = "''no kids''"
        and b = goa_backend and tr = "[]"
        and items = "[(''number_of_children'', PInt 0)]"
        and b' = "fst (snd ?X)" and tr' = "snd (snd ?X)"]
      e g x
    by simp
qed

subsection \<open>Session reset\<close>

text \<open>
  Claim C3, at a session that holds a chosen best flight. \<open>reset_session\<close> empties the
  collected record, both transcripts and the two search results, and sets the stage to
  collecting_info, but it does not assign \<open>best_flights\<close> or \<open>best_hotels\<close>: the session
  after the reset is the initial one except for these two, which keep their values. A
  session reset after a ranking is therefore not the initial session.
\<close>

theorem reset_session_keeps_best_selections:
  "reset_session s = initial_session\<lparr>best_flights := best_flights s, best_hotels := best_hotels s\<rparr>
   \<and> best_flights (reset_session
        (initial_session\<lparr>current_stage := completed,
                          best_flights := Some (PDict [(''airline'', PStr ''IndiGo'')])\<rparr>))
       = Some (PDict [(''airline'', PStr ''IndiGo'')])
   \<and> reset_session
        (initial_session\<lparr>current_stage := completed,
                          best_flights := Some (PDict [(''airline'', PStr ''IndiGo'')])\<rparr>)
       \<noteq> initial_session"
  by (simp add: reset_session_def initial_session_def backend_reset_session_def new_backend_def)

subsection \<open>The bracket scan and the extraction\<close>

text \<open>
  When both brackets occur and the first opening one stands before the last closing one,
  the slice from \<open>find\<close> to \<open>rfind + 1\<close> is the part of the text that starts at the first
  opening bracket and ends at the last closing bracket; otherwise it is empty.
\<close>

lemma bracket_slice:
  assumes o: "c1 \<in> set s" and c: "c2 \<in> set s"
  shows "py_find c1 s \<le> py_rfind c2 s \<Longrightarrow>
           \<exists>pre post. s = pre @ py_slice s (py_find c1 s) (py_rfind c2 s + 1) @ post
             \<and> c1 \<notin> set pre \<and> c2 \<notin> set post
             \<and> py_slice s (py_find c1 s) (py_rfind c2 s + 1) \<noteq> []
             \<and> hd (py_slice s (py_find c1 s) (py_rfind c2 s + 1)) = c1
             \<and> last (py_slice s (py_find c1 s) (py_rfind c2 s + 1)) = c2"
    and "py_rfind c2 s < py_find c1 s \<Longrightarrow> py_slice s (py_find c1 s) (py_rfind c2 s + 1) = []"
proof -
  define pre where "pre = takeWhile (\<lambda>x. x \<noteq> c1) s"
  define rest where "rest = dropWhile (\<lambda>x. x \<noteq> c1) s"
  define post where "post = rev (takeWhile (\<lambda>x. x \<noteq> c2) (rev s))"
  define mid where "mid = rev (dropWhile (\<lambda>x. x \<noteq> c2) (rev s))"
  have s1: "s = pre @ rest"
    by (simp add: pre_def rest_def)
  have "rev (takeWhile (\<lambda>x. x \<noteq> c2) (rev s) @ dropWhile (\<lambda>x. x \<noteq> c2) (rev s)) = s"
    by (simp only: takeWhile_dropWhile_id rev_rev_ident)
  then have s2: "s = mid @ post"
    by (simp only: rev_append mid_def post_def)
  have pre_free: "c1 \<notin> set pre"
    by (auto simp: pre_def dest: set_takeWhileD)
  have post_free: "c2 \<notin> set post"
    by (auto simp: post_def dest: set_takeWhileD)
  have rest_ne: "rest \<noteq> []"
    using o by (auto simp: rest_def)
  then have hd_rest: "hd rest = c1"
    using hd_dropWhile[of "\<lambda>x. x \<noteq> c1" s] by (simp add: rest_def)
  have dw_ne: "dropWhile (\<lambda>x. x \<noteq> c2) (rev s) \<noteq> []"
    using c by auto
  then have mid_ne: "mid \<noteq> []"
    by (simp add: mid_def)
  have last_mid: "last mid = c2"
    using dw_ne hd_dropWhile[of "\<lambda>x. x \<noteq> c2" "rev s"] by (simp add: mid_def last_rev)
  have i: "py_find c1 s = int (length pre)"
    using o by (simp add: py_find_def pre_def)
  have "length s = length mid + length post"
    using s2 by (metis length_append)
  then have j: "py_rfind c2 s = int (length mid) - 1"
    using c by (simp add: py_rfind_def post_def)
  have len_pre: "length pre \<le> length s"
    using s1 by (metis length_append le_add1)
  have len_mid: "length mid \<le> length s"
    using s2 by (metis length_append le_add1)
  have sl: "py_slice s (py_find c1 s) (py_rfind c2 s + 1)
              = take (length mid - length pre) (drop (length pre) s)"
    using len_pre len_mid by (simp add: py_slice_def slice_index_def i j Let_def min_def)
  {
    assume "py_rfind c2 s < py_find c1 s"
    then have "length mid \<le> length pre" using i j by simp
    then show "py_slice s (py_find c1 s) (py_rfind c2 s + 1) = []"
      by (simp add: sl)
  }
  {
    assume "py_find c1 s \<le> py_rfind c2 s"
    then have lt: "length pre < length mid" using i j by simp
    from s1 s2 have "pre @ rest = mid @ post" by simp
    then obtain us where "pre = mid @ us \<and> us @ rest = post \<or> pre @ us = mid \<and> rest = us @ post"
      by (auto simp: append_eq_append_conv2)
    with lt have us: "mid = pre @ us" "rest = us @ post" by auto
    with lt have us_ne: "us \<noteq> []" by auto
    have "drop (length pre) s = us @ post"
      using s1 us by simp
    moreover have "length mid - length pre = length us"
      using us by simp
    ultimately have slice_us: "py_slice s (py_find c1 s) (py_rfind c2 s + 1) = us"
      by (simp add: sl)
    have "hd us = c1" using hd_rest us us_ne by simp
    moreover have "last us = c2" using last_mid us us_ne by simp
    moreover have "s = pre @ us @ post" using s1 us by simp
    ultimately show "\<exists>pre post. s = pre @ py_slice s (py_find c1 s) (py_rfind c2 s + 1) @ post
             \<and> c1 \<notin> set pre \<and> c2 \<notin> set post
             \<and> py_slice s (py_find c1 s) (py_rfind c2 s + 1) \<noteq> []
             \<and> hd (py_slice s (py_find c1 s) (py_rfind c2 s + 1)) = c1
             \<and> last (py_slice s (py_find c1 s) (py_rfind c2 s + 1)) = c2"
      using pre_free post_free us_ne slice_us by metis
  }
qed

lemma py_find_absent: "py_find c s = - 1 \<longleftrightarrow> c \<notin> set s"
  by (simp add: py_find_def)

lemma py_rfind_absent: "py_rfind c s + 1 = 0 \<longleftrightarrow> c \<notin> set s"
proof -
  have "length (takeWhile (\<lambda>x. x \<noteq> c) (rev s)) \<le> length s"
    using length_takeWhile_le[of "\<lambda>x. x \<noteq> c" "rev s"] by simp
  moreover have "c \<in> set s \<Longrightarrow> length (takeWhile (\<lambda>x. x \<noteq> c) (rev s)) < length s"
  proof -
    assume "c \<in> set s"
    then have "dropWhile (\<lambda>x. x \<noteq> c) (rev s) \<noteq> []" by auto
    then have "length (takeWhile (\<lambda>x. x \<noteq> c) (rev s)) < length (rev s)"
      by (metis takeWhile_dropWhile_id length_append length_greater_0_conv less_add_same_cancel1)
    then show ?thesis by simp
  qed
  ultimately show ?thesis
    by (auto simp: py_rfind_def)
qed

lemma extract_after_reply:
  assumes "inference env (Conversation (conversation_history b @ [(''user'', extract_prompt u)])) tr
             = (Inr reply, tr')"
  shows "extract_info_from_input env u b tr =
     (if CHR ''{'' \<in> set reply \<and> CHR ''}'' \<in> set reply then
        (case json_loads env (json_part reply) of
           Inl e \<Rightarrow> if caught_by_extract e then (Inr (PDict []), b, tr') else (Inl e, b, tr')
         | Inr info \<Rightarrow>
             (case py_items info of
                Inl e \<Rightarrow> (Inl e, b, tr')
              | Inr items \<Rightarrow>
                  (Inr info,
                   b\<lparr>collected_info :=
                        dict_update (collected_info b) (filter (\<lambda>kv. truthy (snd kv)) items),
                      conversation_history :=
                        conversation_history b @ [(''user'', u), (''assistant'', reply)]\<rparr>,
                   tr')))
      else (Inr (PDict []), b, tr'))"
  using assms
  by (simp add: extract_info_from_input_def Let_def json_part_def py_find_absent py_rfind_absent)

lemma extract_reply_failed:
  assumes "inference env (Conversation (conversation_history b @ [(''user'', extract_prompt u)])) tr
             = (Inr reply, tr')"
    and "CHR ''{'' \<notin> set reply \<or> CHR ''}'' \<notin> set reply
           \<or> (\<exists>e. json_loads env (json_part reply) = Inl e \<and> caught_by_extract e)"
  shows "extract_info_from_input env u b tr = (Inr (PDict []), b, tr')"
  using assms(2) by (auto simp: extract_after_reply[OF assms(1)])

lemma extract_reply_raises:
  assumes "inference env (Conversation (conversation_history b @ [(''user'', extract_prompt u)])) tr
             = (Inr reply, tr')"
    and "CHR ''{'' \<in> set reply" "CHR ''}'' \<in> set reply"
    and "json_loads env (json_part reply) = Inl e" "\<not> caught_by_extract e"
  shows "extract_info_from_input env u b tr = (Inl e, b, tr')"
  using assms(2-) by (simp add: extract_after_reply[OF assms(1)])

lemma process_user_input_failed:
  assumes "extract_info_from_input env u (backend s) tr = (Inr (PDict []), backend s, tr')"
    and "current_stage s = collecting_info" "\<not> is_info_complete (backend s)"
  shows "\<exists>s'. process_user_input env u s tr = (Finished, s', tr') \<and> backend s' = backend s
           \<and> current_stage s' = collecting_info"
  using assms by (simp add: process_user_input_def Let_def)

lemma process_user_input_crashed:
  assumes "extract_info_from_input env u (backend s) tr = (Inl e, backend s, tr')"
    and "current_stage s = collecting_info"
  shows "\<exists>s'. process_user_input env u s tr = (Crashed e, s', tr') \<and> backend s' = backend s
           \<and> current_stage s' = collecting_info"
  using assms by (simp add: process_user_input_def Let_def)

text \<open>The sample client's first answer is the first reply of its script.\<close>

lemma deep_env_reply:
  "inference deep_env p [] = (Inr deep_reply, [Invoke (strip_prompt deep_env p)])"
  by (simp add: inference_def inference_loop.simps[of _ _ True] inference_loop.simps[of _ _ False]
        attempt_def and_then_def call_def deep_env_def sample_env_def scripted_invoke_def
        max_retries_def)

lemma json_part_whole: "json_part (CHR ''{'' # xs @ [CHR ''}'']) = CHR ''{'' # xs @ [CHR ''}'']"
  by (simp add: json_part_def py_find_def py_rfind_def py_slice_def slice_index_def Let_def)

lemma too_deep_replicate:
  "0 < n \<Longrightarrow> limit < d + n \<Longrightarrow> too_deep limit d (replicate n CHR ''['' @ xs)"
proof (induction n arbitrary: d)
  case 0
  then show ?case by simp
next
  case (Suc m)
  show ?case
  proof (cases "m = 0")
    case True
    with Suc.prems show ?thesis by simp
  next
    case False
    with Suc.prems Suc.IH[of "Suc d"] show ?thesis by simp
  qed
qed

lemma deep_reply_decode: "json_loads deep_env (json_part deep_reply) = Inl recursion_error"
proof -
  have "deep_reply = CHR ''{'' # (''\"a\": '' @ replicate deep_nesting CHR ''[''
                        @ replicate deep_nesting CHR '']'') @ [CHR ''}'']"
    by (simp add: deep_reply_def)
  then have p: "json_part deep_reply = deep_reply"
    using json_part_whole by metis
  have "too_deep 1000 1 (replicate deep_nesting CHR ''['' @ replicate deep_nesting CHR '']'' @ ''}'')"
    by (rule too_deep_replicate) (simp_all add: deep_nesting_def)
  then have "too_deep 1000 0 deep_reply"
    by (simp add: deep_reply_def)
  with p show ?thesis
    by (simp add: deep_env_def limited_loads_def)
qed

text \<open>
  Claim C5. Let the model have replied to the extraction's call. The text handed to the
  decoder is the slice of the reply from its first opening brace to its last closing
  brace: when the first stands before the last, the slice starts and ends with them, no
  opening brace comes before it and no closing brace after it, and when the last closing
  brace stands before the first opening one the slice is empty. If a brace of either kind
  is missing, or the decoder rejects the slice with a ValueError (a JSONDecodeError is
  one), \<open>extract_info_from_input\<close> returns the empty record without raising and leaves
  the backend, with its collected record and its conversation history, as it was;
  \<open>process_user_input\<close>, started in collecting_info on an incomplete record, then ends in
  collecting_info. But if the decoder fails with an exception of any other class, as it
  does with a RecursionError on a reply nested too deep, that exception leaves
  \<open>extract_info_from_input\<close> and \<open>process_user_input\<close>: the failed decode is raised past
  the boundary, with the backend and the stage as they were. If the slice decodes to a
  record, the record is returned, its truthy values are merged, and the user input and
  the reply are appended to the conversation history. The history changes in no other
  case.
\<close>

theorem extraction_decode_failure:
  assumes "inference env (Conversation (conversation_history b @ [(''user'', extract_prompt u)])) tr
             = (Inr reply, tr')"
  shows
    "(CHR ''{'' \<in> set reply \<and> CHR ''}'' \<in> set reply \<longrightarrow>
        (py_find CHR ''{'' reply \<le> py_rfind CHR ''}'' reply \<longrightarrow>
           (\<exists>pre post. reply = pre @ json_part reply @ post
              \<and> CHR ''{'' \<notin> set pre \<and> CHR ''}'' \<notin> set post
              \<and> hd (json_part reply) = CHR ''{'' \<and> last (json_part reply) = CHR ''}''))
        \<and> (py_rfind CHR ''}'' reply < py_find CHR ''{'' reply \<longrightarrow> json_part reply = []))
     \<and> (CHR ''{'' \<notin> set reply \<or> CHR ''}'' \<notin> set reply
          \<or> (\<exists>e. json_loads env (json_part reply) = Inl e \<and> caught_by_extract e) \<longrightarrow>
          extract_info_from_input env u b tr = (Inr (PDict []), b, tr')
          \<and> (current_stage s = collecting_info \<and> backend s = b \<and> \<not> is_info_complete b \<longrightarrow>
                (\<exists>s'. process_user_input env u s tr = (Finished, s', tr') \<and> backend s' = b
                   \<and> current_stage s' = collecting_info)))
     \<and> (CHR ''{'' \<in> set reply \<and> CHR ''}'' \<in> set reply
          \<and> json_loads env (json_part reply) = Inl e \<and> \<not> caught_by_extract e \<longrightarrow>
          extract_info_from_input env u b tr = (Inl e, b, tr')
          \<and> (current_stage s = collecting_info \<and> backend s = b \<longrightarrow>
                (\<exists>s'. process_user_input env u s tr = (Crashed e, s', tr') \<and> backend s' = b
                   \<and> current_stage s' = collecting_info)))
     \<and> (CHR ''{'' \<in> set reply \<and> CHR ''}'' \<in> set reply
          \<and> json_loads env (json_part reply) = Inr (PDict items) \<longrightarrow>
          extract_info_from_input env u b tr =
            (Inr (PDict items),
             b\<lparr>collected_info :=
                  dict_update (collected_info b) (filter (\<lambda>kv. truthy (snd kv)) items),
                conversation_history :=
                  conversation_history b @ [(''user'', u), (''assistant'', reply)]\<rparr>,
             tr'))
     \<and> (\<forall>r b'' tr''. extract_info_from_input env u b tr = (r, b'', tr'')
            \<and> conversation_history b'' \<noteq> conversation_history b \<longrightarrow>
          CHR ''{'' \<in> set reply \<and> CHR ''}'' \<in> set reply
            \<and> (\<exists>items. json_loads env (json_part reply) = Inr (PDict items)))"
proof (intro conjI impI allI)
  assume "CHR ''{'' \<in> set reply \<and> CHR ''}'' \<in> set reply"
    and "py_find CHR ''{'' reply \<le> py_rfind CHR ''}'' reply"
  then show "\<exists>pre post. reply = pre @ json_part reply @ post
              \<and> CHR ''{'' \<notin> set pre \<and> CHR ''}'' \<notin> set post
              \<and> hd (json_part reply) = CHR ''{'' \<and> last (json_part reply) = CHR ''}''"
    using bracket_slice(1)[of "CHR ''{''" reply "CHR ''}''"] unfolding json_part_def by blast
next
  assume "CHR ''{'' \<in> set reply \<and> CHR ''}'' \<in> set reply"
    and "py_rfind CHR ''}'' reply < py_find CHR ''{'' reply"
  then show "json_part reply = []"
    using bracket_slice(2)[of "CHR ''{''" reply "CHR ''}''"] unfolding json_part_def by blast
next
  assume f: "CHR ''{'' \<notin> set reply \<or> CHR ''}'' \<notin> set reply
          \<or> (\<exists>e. json_loads env (json_part reply) = Inl e \<and> caught_by_extract e)"
  show x: "extract_info_from_input env u b tr = (Inr (PDict []), b, tr')"
    by (rule extract_reply_failed[OF assms f])
  assume "current_stage s = collecting_info \<and> backend s = b \<and> \<not> is_info_complete b"
  with x show "\<exists>s'. process_user_input env u s tr = (Finished, s', tr') \<and> backend s' = b
                   \<and> current_stage s' = collecting_info"
    using process_user_input_failed[of env u s tr tr'] by auto
next
  assume f: "CHR ''{'' \<in> set reply \<and> CHR ''}'' \<in> set reply
          \<and> json_loads env (json_part reply) = Inl e \<and> \<not> caught_by_extract e"
  then show x: "extract_info_from_input env u b tr = (Inl e, b, tr')"
    using extract_reply_raises[OF assms] by blast
  assume "current_stage s = collecting_info \<and> backend s = b"
  with x show "\<exists>s'. process_user_input env u s tr = (Crashed e, s', tr') \<and> backend s' = b
                   \<and> current_stage s' = collecting_info"
    using process_user_input_crashed[of env u s tr e tr'] by auto
next
  assume "CHR ''{'' \<in> set reply \<and> CHR ''}'' \<in> set reply
          \<and> json_loads env (json_part reply) = Inr (PDict items)"
  then show "extract_info_from_input env u b tr =
            (Inr (PDict items),
             b\<lparr>collected_info :=
                  dict_update (collected_info b) (filter (\<lambda>kv. truthy (snd kv)) items),
                conversation_history :=
                  conversation_history b @ [(''user'', u), (''assistant'', reply)]\<rparr>,
             tr')"
    by (simp add: extract_after_reply[OF assms])
next
  fix r b'' tr''
  assume a: "extract_info_from_input env u b tr = (r, b'', tr'')
            \<and> conversation_history b'' \<noteq> conversation_history b"
  then have "CHR ''{'' \<in> set reply \<and> CHR ''}'' \<in> set reply
            \<and> (\<exists>items. json_loads env (json_part reply) = Inr (PDict items))"
    by (auto simp: extract_after_reply[OF assms] split: if_splits sum.splits elim!: py_items.elims)
  then show "CHR ''{'' \<in> set reply" "CHR ''}'' \<in> set reply"
    "\<exists>items. json_loads env (json_part reply) = Inr (PDict items)"
    by blast+
qed

text \<open>
  The theorem at a reply with 100000 nested arrays, on which the decoder runs out of
  recursion depth: the RecursionError leaves \<open>extract_info_from_input\<close>, and the run of
  \<open>process_user_input\<close> ends with it.
\<close>

theorem extraction_decode_failure_witness:
  "json_loads deep_env (json_part deep_reply) = Inl recursion_error
   \<and> \<not> caught_by_extract recursion_error
   \<and> extract_info_from_input deep_env ''hello'' new_backend []
       = (Inl recursion_error, new_backend,
          [Invoke (Conversation [(''user'', extract_prompt ''hello'')])])
   \<and> (\<exists>s'. process_user_input deep_env ''hello'' (chatting_session new_backend) []
              = (Crashed recursion_error, s',
                 [Invoke (Conversation [(''user'', extract_prompt ''hello'')])])
          \<and> backend s' = new_backend \<and> current_stage s' = collecting_info)"
proof -
  have i: "inference deep_env
             (Conversation (conversation_history new_backend @ [(''user'', extract_prompt ''hello'')])) []
           = (Inr deep_reply, [Invoke (Conversation [(''user'', extract_prompt ''hello'')])])"
    by (simp add: deep_env_reply new_backend_def)
  have o: "CHR ''{'' \<in> set deep_reply" and c: "CHR ''}'' \<in> set deep_reply"
    by (simp_all add: deep_reply_def)
  have n: "\<not> caught_by_extract recursion_error"
    by (simp add: caught_by_extract_def recursion_error_def)
  have s: "current_stage (chatting_session new_backend) = collecting_info"
    "backend (chatting_session new_backend) = new_backend"
    by (simp_all add: chatting_session_def initial_session_def)
  note t = extraction_decode_failure[OF i, where e = recursion_error
             and s = "chatting_session new_backend",
             THEN conjunct2, THEN conjunct2, THEN conjunct1, THEN mp]
  have "extract_info_from_input deep_env ''hello'' new_backend []
          = (Inl recursion_error, new_backend,
             [Invoke (Conversation [(''user'', extract_prompt ''hello'')])])
        \<and> (current_stage (chatting_session new_backend) = collecting_info
             \<and> backend (chatting_session new_backend) = new_backend \<longrightarrow>
           (\<exists>s'. process_user_input deep_env ''hello'' (chatting_session new_backend) []
              = (Crashed recursion_error, s',
                 [Invoke (Conversation [(''user'', extract_prompt ''hello'')])])
          \<and> backend s' = new_backend \<and> current_stage s' = collecting_info))"
    by (rule t) (intro conjI o c deep_reply_decode n)
  with s deep_reply_decode n show ?thesis
    by blast
qed

subsection \<open>What a computation adds to the trace\<close>

lemma addsI:
  assumes "\<And>tr r tr'. m tr = (r, tr') \<Longrightarrow> \<exists>evs. tr' = tr @ evs \<and> list_all P evs"
  shows "adds P m"
  using assms by (auto simp: adds_def)



lemma adds_raises [intro!]: "adds P (raises e)"
  by (rule addsI) (simp add: raises_def)










lemma and_then_Inr: "m tr = (Inr x, tr') \<Longrightarrow> and_then m f tr = f x tr'"
  by (simp add: and_then_def)


lemma lookup_Some: "d k = Some v \<Longrightarrow> lookup d k = returns v"
  by (simp add: lookup_def)

subsection \<open>Hotels\<close>
















subsection \<open>Flights\<close>

lemma flights_source_not_found:
  assumes "collected_info b ''source'' = Some source"
    and "collected_info b ''destination'' = Some destination"
    and "collected_info b ''start_date'' = Some sd" "collected_info b ''end_date'' = Some ed"
    and "inference env (Text (airport_prompt source)) tr = (Inr source_code, tr1)"
    and "py_upper env (py_strip env source_code) = ''N/A''"
  shows "get_flights_info env b tr
           = (error_dict (''No airport found for source: '' @ py_str source), tr1)"
  using assms
  by (simp add: get_flights_info_def catch_all_def flights_body_def lookup_Some and_then_Inr
        returns_def)

lemma flights_destination_not_found:
  assumes "collected_info b ''source'' = Some source"
    and "collected_info b ''destination'' = Some destination"
    and "collected_info b ''start_date'' = Some sd" "collected_info b ''end_date'' = Some ed"
    and "inference env (Text (airport_prompt source)) tr = (Inr source_code, tr1)"
    and "py_upper env (py_strip env source_code) \<noteq> ''N/A''"
    and "replace_vals (airport_prompt source) source destination = Inr destination_prompt"
    and "inference env (Text destination_prompt) tr1 = (Inr destination_code, tr2)"
    and "py_upper env (py_strip env destination_code) = ''N/A''"
  shows "get_flights_info env b tr
           = (error_dict (''No airport found for destination: '' @ py_str destination), tr2)"
  using assms
  by (simp add: get_flights_info_def catch_all_def flights_body_def lookup_Some and_then_Inr
        returns_def)

lemma llm_events_no_search:
  "list_all llm_event evs \<Longrightarrow> SearchFlights origin dest day \<notin> set evs"
  by (auto simp: list_all_iff)

text \<open>The search results that \<open>search_flights_and_hotels\<close> leaves in the session.\<close>

lemma blocks_keep_results [simp]:
  "flights_info (fst (hotels_block env s tr)) = flights_info s"
  "flights_info (fst (snd (best_flights_block env s tr))) = flights_info s"
  "flights_info (fst (snd (best_hotels_block env s tr))) = flights_info s"
  "hotels_info (fst (flights_block env s tr)) = hotels_info s"
  "hotels_info (fst (snd (best_flights_block env s tr))) = hotels_info s"
  "hotels_info (fst (snd (best_hotels_block env s tr))) = hotels_info s"
  by (simp_all add: flights_block_def hotels_block_def best_flights_block_def
        best_hotels_block_def Let_def split: prod.splits option.splits)

lemma flights_block_result:
  "flights_info (fst (flights_block env s tr))
     = stored_flights (fst (get_flights_info env (backend s) tr))"
  "snd (flights_block env s tr) = snd (get_flights_info env (backend s) tr)"
  by (simp_all add: flights_block_def stored_flights_def Let_def case_prod_unfold
        split: option.splits)

lemma hotels_block_result:
  "hotels_info (fst (hotels_block env s tr))
     = stored_hotels (fst (get_hotels_info env (backend s) tr))"
  by (simp add: hotels_block_def stored_hotels_def Let_def case_prod_unfold split: option.splits)

lemma search_flights_and_hotels_results:
  "flights_info (fst (search_flights_and_hotels env s tr))
     = stored_flights (fst (get_flights_info env (backend s) tr))"
  "hotels_info (fst (search_flights_and_hotels env s tr))
     = stored_hotels
         (fst (get_hotels_info env (backend s) (snd (get_flights_info env (backend s) tr))))"
  by (simp_all add: search_flights_and_hotels_def Let_def case_prod_unfold
        flights_block_result hotels_block_result)

text \<open>
  Claim C6. Let the four trip fields the flight adapter reads be present and let the
  model have answered the airport-code question for the source. If the answer, stripped
  and upper-cased by Python's \<open>strip()\<close> and \<open>upper()\<close>, is "N/A", \<open>get_flights_info\<close>
  returns the error result "No airport found for source: " followed by the source,
  having asked nothing more: the trace ends
  where that answer left it and holds no request to the flight provider. If the source
  resolves and the destination's answer is "N/A", the error names the destination, again
  with no request to the flight provider. In both cases \<open>search_flights_and_hotels\<close>
  records no flight result and goes on to the hotel search: the hotel result it stores
  is what \<open>get_hotels_info\<close> returns for the same collected record, from the trace the
  flight adapter left.
\<close>

theorem no_airport_found:
  assumes "collected_info b ''source'' = Some source"
    and "collected_info b ''destination'' = Some destination"
    and "collected_info b ''start_date'' = Some sd" "collected_info b ''end_date'' = Some ed"
    and "inference env (Text (airport_prompt source)) tr = (Inr source_code, tr1)"
  shows
    "(py_upper env (py_strip env source_code) = ''N/A'' \<longrightarrow>
        get_flights_info env b tr
          = (error_dict (''No airport found for source: '' @ py_str source), tr1)
        \<and> (\<exists>evs. tr1 = tr @ evs \<and> (\<forall>origin dest day. SearchFlights origin dest day \<notin> set evs))
        \<and> (backend s = b \<longrightarrow>
             flights_info (fst (search_flights_and_hotels env s tr)) = None
             \<and> hotels_info (fst (search_flights_and_hotels env s tr)) =
                 stored_hotels (fst (get_hotels_info env b tr1))))
     \<and> (py_upper env (py_strip env source_code) \<noteq> ''N/A''
          \<and> replace_vals (airport_prompt source) source destination = Inr destination_prompt
          \<and> inference env (Text destination_prompt) tr1 = (Inr destination_code, tr2)
          \<and> py_upper env (py_strip env destination_code) = ''N/A'' \<longrightarrow>
        get_flights_info env b tr
          = (error_dict (''No airport found for destination: '' @ py_str destination), tr2)
        \<and> (\<exists>evs. tr2 = tr @ evs \<and> (\<forall>origin dest day. SearchFlights origin dest day \<notin> set evs))
        \<and> (backend s = b \<longrightarrow>
             flights_info (fst (search_flights_and_hotels env s tr)) = None
             \<and> hotels_info (fst (search_flights_and_hotels env s tr)) =
                 stored_hotels (fst (get_hotels_info env b tr2))))"
proof (intro conjI impI)
  from inference_trace[OF assms(5)] obtain evs1
    where e1: "tr1 = tr @ evs1" "list_all llm_event evs1" by blast
  {
    assume na: "py_upper env (py_strip env source_code) = ''N/A''"
    show g: "get_flights_info env b tr
          = (error_dict (''No airport found for source: '' @ py_str source), tr1)"
      by (rule flights_source_not_found[OF assms na])
    from e1 show "\<exists>evs. tr1 = tr @ evs \<and> (\<forall>origin dest day. SearchFlights origin dest day \<notin> set evs)"
      using llm_events_no_search by blast
    assume "backend s = b"
    with g show "flights_info (fst (search_flights_and_hotels env s tr)) = None"
      "hotels_info (fst (search_flights_and_hotels env s tr)) =
                 stored_hotels (fst (get_hotels_info env b tr1))"
      by (simp_all add: search_flights_and_hotels_results error_dict_def stored_flights_def)
  }
  {
    assume a: "py_upper env (py_strip env source_code) \<noteq> ''N/A''
          \<and> replace_vals (airport_prompt source) source destination = Inr destination_prompt
          \<and> inference env (Text destination_prompt) tr1 = (Inr destination_code, tr2)
          \<and> py_upper env (py_strip env destination_code) = ''N/A''"
    then have i2: "inference env (Text destination_prompt) tr1 = (Inr destination_code, tr2)"
      by simp
    from inference_trace[OF i2] obtain evs2
      where e2: "tr2 = tr1 @ evs2" "list_all llm_event evs2" by blast
    from a show g: "get_flights_info env b tr
          = (error_dict (''No airport found for destination: '' @ py_str destination), tr2)"
      using flights_destination_not_found[OF assms] by blast
    from e1 e2 have "tr2 = tr @ (evs1 @ evs2)" "list_all llm_event (evs1 @ evs2)"
      by simp_all
    then show "\<exists>evs. tr2 = tr @ evs \<and> (\<forall>origin dest day. SearchFlights origin dest day \<notin> set evs)"
      using llm_events_no_search by blast
    assume "backend s = b"
    with g show "flights_info (fst (search_flights_and_hotels env s tr)) = None"
      "hotels_info (fst (search_flights_and_hotels env s tr)) =
                 stored_hotels (fst (get_hotels_info env b tr2))"
      by (simp_all add: search_flights_and_hotels_results error_dict_def stored_flights_def)
  }
qed

text \<open>
  The theorem at the answer " n/a" with a line break after it for the source, and, with
  the source resolved to "DEL", at the answer "N/A" for the destination. The hotel
  provider is asked in both cases, and what it finds is stored.
\<close>

theorem no_airport_found_witness:
  "py_upper no_airport_env (py_strip no_airport_env '' n/a\<newline>'') = ''N/A''
   \<and> get_flights_info no_airport_env trip_backend []
       = (error_dict ''No airport found for source: Delhi'',
          [Invoke (Text (airport_prompt (PStr ''Delhi'')))])
   \<and> flights_info (fst (search_flights_and_hotels no_airport_env (chatting_session trip_backend) []))
       = None
   \<and> hotels_info (fst (search_flights_and_hotels no_airport_env (chatting_session trip_backend) []))
       = PList [PDict [(''name'', PStr ''Sea View''), (''children_ages'', PStr ''8,8'')]]
   \<and> get_flights_info no_destination_env trip_backend []
       = (error_dict ''No airport found for destination: Goa'',
          [Invoke (Text (airport_prompt (PStr ''Delhi''))),
           Invoke (Text (airport_prompt (PStr ''Goa'')))])
   \<and> flights_info (fst (search_flights_and_hotels no_destination_env (chatting_session trip_backend) []))
       = None
   \<and> hotels_info (fst (search_flights_and_hotels no_destination_env (chatting_session trip_backend) []))
       = PList [PDict [(''name'', PStr ''Sea View''), (''children_ages'', PStr ''8,8'')]]"
proof -
  let ?I = "inference no_airport_env (Text (airport_prompt (PStr ''Delhi''))) []"
  let ?J = "inference no_destination_env (Text (airport_prompt (PStr ''Delhi''))) []"
  let ?K = "inference no_destination_env (Text (airport_prompt (PStr ''Goa''))) (snd ?J)"
  have i: "?I = (Inr '' n/a\<newline>'', [Invoke (Text (airport_prompt (PStr ''Delhi'')))])"
    by code_simp
  have j: "?J = (Inr ''DEL'', [Invoke (Text (airport_prompt (PStr ''Delhi'')))])"
    by code_simp
  have "?K = (Inr ''N/A'', [Invoke (Text (airport_prompt (PStr ''Delhi''))),
                             Invoke (Text (airport_prompt (PStr ''Goa'')))])"
    by code_simp
  with j have k: "inference no_destination_env (Text (airport_prompt (PStr ''Goa'')))
                    [Invoke (Text (airport_prompt (PStr ''Delhi'')))]
                  = (Inr ''N/A'', [Invoke (Text (airport_prompt (PStr ''Delhi''))),
                                   Invoke (Text (airport_prompt (PStr ''Goa'')))])"
    by simp
  have u: "py_upper no_airport_env (py_strip no_airport_env '' n/a\<newline>'') = ''N/A''"
    and v: "py_upper no_destination_env (py_strip no_destination_env ''DEL'') \<noteq> ''N/A''"
    and w: "py_upper no_destination_env (py_strip no_destination_env ''N/A'') = ''N/A''"
    by code_simp+
  have r: "replace_vals (airport_prompt (PStr ''Delhi'')) (PStr ''Delhi'') (PStr ''Goa'')
             = Inr (airport_prompt (PStr ''Goa''))"
    by code_simp
  have h1: "stored_hotels (fst (get_hotels_info no_airport_env trip_backend
                                 [Invoke (Text (airport_prompt (PStr ''Delhi'')))]))
              = PList [PDict [(''name'', PStr ''Sea View''), (''children_ages'', PStr ''8,8'')]]"
    by code_simp
  have h2: "stored_hotels (fst (get_hotels_info no_destination_env trip_backend
                                 [Invoke (Text (airport_prompt (PStr ''Delhi''))),
                                  Invoke (Text (airport_prompt (PStr ''Goa'')))]))
              = PList [PDict [(''name'', PStr ''Sea View''), (''children_ages'', PStr ''8,8'')]]"
    by code_simp
  have c: "collected_info trip_backend ''source'' = Some (PStr ''Delhi'')"
    "collected_info trip_backend ''destination'' = Some (PStr ''Goa'')"
    "collected_info trip_backend ''start_date'' = Some (PStr ''June 10'')"
    "collected_info trip_backend ''end_date'' = Some (PStr ''June 15'')"
    by (simp_all add: trip_backend_def)
  have b: "backend (chatting_session trip_backend) = trip_backend"
    by (simp add: chatting_session_def)
  note s = no_airport_found[OF c i, where s = "chatting_session trip_backend",
             THEN conjunct1, THEN mp, OF u]
  note d = no_airport_found[OF c j, where s = "chatting_session trip_backend"
             and destination_prompt = "airport_prompt (PStr ''Goa'')"
             and destination_code = "''N/A''"
             and ?tr2.0 = "[Invoke (Text (airport_prompt (PStr ''Delhi''))),
                           Invoke (Text (airport_prompt (PStr ''Goa'')))]",
             THEN conjunct2, THEN mp]
  have d': "get_flights_info no_destination_env trip_backend []
       = (error_dict (''No airport found for destination: '' @ py_str (PStr ''Goa'')),
          [Invoke (Text (airport_prompt (PStr ''Delhi''))),
           Invoke (Text (airport_prompt (PStr ''Goa'')))])
     \<and> (\<exists>evs. [Invoke (Text (airport_prompt (PStr ''Delhi''))),
                Invoke (Text (airport_prompt (PStr ''Goa'')))] = [] @ evs
            \<and> (\<forall>origin dest day. SearchFlights origin dest day \<notin> set evs))
     \<and> (backend (chatting_session trip_backend) = trip_backend \<longrightarrow>
          flights_info (fst (search_flights_and_hotels no_destination_env
                               (chatting_session trip_backend) [])) = None
          \<and> hotels_info (fst (search_flights_and_hotels no_destination_env
                                 (chatting_session trip_backend) [])) =
              stored_hotels (fst (get_hotels_info no_destination_env trip_backend
                                    [Invoke (Text (airport_prompt (PStr ''Delhi''))),
                                     Invoke (Text (airport_prompt (PStr ''Goa'')))])))"
    by (rule d) (intro conjI v r k w)
  from s b h1 have
    "get_flights_info no_airport_env trip_backend []
       = (error_dict ''No airport found for source: Delhi'',
          [Invoke (Text (airport_prompt (PStr ''Delhi'')))])"
    "flights_info (fst (search_flights_and_hotels no_airport_env (chatting_session trip_backend) []))
       = None"
    "hotels_info (fst (search_flights_and_hotels no_airport_env (chatting_session trip_backend) []))
       = PList [PDict [(''name'', PStr ''Sea View''), (''children_ages'', PStr ''8,8'')]]"
    by simp_all
  moreover from d' b h2 have
    "get_flights_info no_destination_env trip_backend []
       = (error_dict ''No airport found for destination: Goa'',
          [Invoke (Text (airport_prompt (PStr ''Delhi''))),
           Invoke (Text (airport_prompt (PStr ''Goa'')))])"
    "flights_info (fst (search_flights_and_hotels no_destination_env (chatting_session trip_backend) []))
       = None"
    "hotels_info (fst (search_flights_and_hotels no_destination_env (chatting_session trip_backend) []))
       = PList [PDict [(''name'', PStr ''Sea View''), (''children_ages'', PStr ''8,8'')]]"
    by simp_all
  ultimately show ?thesis
    using u by (intro conjI)
qed

subsection \<open>Stages\<close>

lemma process_user_input_stage:
  assumes "process_user_input env u s tr = (out, s', tr')" "current_stage s = collecting_info"
  shows "(current_stage s' = searching_flights_hotels \<longleftrightarrow>
            (\<exists>info. fst (extract_info_from_input env u (backend s) tr) = Inr info)
            \<and> is_info_complete (backend s'))
         \<and> (current_stage s' \<noteq> searching_flights_hotels \<longrightarrow> current_stage s' = collecting_info)"
proof -
  from process_user_input_cases[OF assms(1)] assms(2)
  obtain r b' where x: "extract_info_from_input env u (backend s) tr = (r, b', tr')"
    and b: "backend s' = b'"
    and c: "case r of
              Inl e \<Rightarrow> out = Crashed e \<and> current_stage s' = collecting_info
            | Inr info \<Rightarrow>
                if is_info_complete b'
                then out = Rerun \<and> current_stage s' = searching_flights_hotels
                else out = Finished \<and> current_stage s' = collecting_info"
    by auto
  show ?thesis
  proof (cases r)
    case (Inl e)
    with x c show ?thesis by simp
  next
    case (Inr info)
    with x b c show ?thesis by (cases "is_info_complete b'") simp_all
  qed
qed

lemma main_stage_forward:
  assumes "main env ev s tr = (out, s', tr')" "ev \<noteq> Start_new_trip"
  shows "stage_rank (current_stage s) \<le> stage_rank (current_stage s')"
proof -
  from main_cases[OF assms(1)] assms(2)
  consider (same) "current_stage s' = current_stage s"
    | (search) "current_stage s = searching_flights_hotels"
        "(s', tr') = search_flights_and_hotels env s tr"
    | (create) "(s', tr') = create_itinerary env s tr"
    | (input) p out1 where "current_stage s = collecting_info"
        "process_user_input env p s tr = (out1, s', tr')"
    by blast
  then show ?thesis
  proof cases
    case same
    then show ?thesis by simp
  next
    case search
    then have "s' = fst (search_flights_and_hotels env s tr)" by (metis fst_conv)
    with search(1) show ?thesis by (simp add: search_flights_and_hotels_stage)
  next
    case create
    then have "s' = fst (create_itinerary env s tr)" by (metis fst_conv)
    then have "current_stage s' = completed" by (simp add: create_itinerary_stage)
    then show ?thesis by (cases "current_stage s") simp_all
  next
    case input
    then show ?thesis by simp
  qed
qed

lemma runs_stage_forward:
  "Start_new_trip \<notin> set evs \<Longrightarrow>
     stage_rank (current_stage s) \<le> stage_rank (current_stage (fst (runs env evs s tr)))"
proof (induction evs arbitrary: s tr)
  case Nil
  then show ?case by simp
next
  case (Cons ev evs)
  obtain out s1 tr1 where m: "main env ev s tr = (out, s1, tr1)"
    by (cases "main env ev s tr")
  from Cons.prems have "ev \<noteq> Start_new_trip" "Start_new_trip \<notin> set evs" by auto
  from main_stage_forward[OF m this(1)] Cons.IH[OF this(2), of s1 tr1] m
  show ?case by simp
qed

lemma main_from_collecting:
  assumes "main env ev s tr = (out, s', tr')" "ev \<noteq> Start_new_trip"
    and "current_stage s = collecting_info" "current_stage s' \<noteq> collecting_info"
  shows "current_stage s' = searching_flights_hotels \<and> is_info_complete (backend s')
           \<and> (\<exists>u. ev = Chat_input u)"
proof -
  from main_cases[OF assms(1)] assms(2,3,4)
  obtain p out1 where "ev = Chat_input p" "process_user_input env p s tr = (out1, s', tr')"
    by auto
  with process_user_input_stage[OF this(2) assms(3)] assms(4) show ?thesis by auto
qed

lemma main_from_searching:
  assumes "main env ev s tr = (out, s', tr')" "ev \<noteq> Start_new_trip"
    and "messages s \<noteq> []" "current_stage s = searching_flights_hotels"
  shows "out = Rerun \<and> current_stage s' = creating_itinerary"
  using assms search_flights_and_hotels_stage[of env s tr]
  by (auto simp: main_def split: prod.splits)

lemma main_from_creating:
  assumes "main env ev s tr = (out, s', tr')" "ev \<noteq> Start_new_trip"
    and "messages s \<noteq> []" "current_stage s = creating_itinerary"
  shows "out = Rerun \<and> current_stage s' = completed"
  using assms create_itinerary_stage[of env s tr]
  by (auto simp: main_def split: prod.splits)

lemma main_from_completed:
  assumes "main env ev s tr = (out, s', tr')" "ev \<noteq> Start_new_trip"
    and "current_stage s = completed"
  shows "current_stage s' = completed"
  using main_cases[OF assms(1)] assms(2,3) by auto

text \<open>
  Once the welcome message is in the chat, the chat is never empty again until a reset;
  so in every state a session reaches, an empty chat goes with the stage collecting_info.
\<close>

lemma block_messages:
  "messages s \<noteq> [] \<Longrightarrow> messages (fst (flights_block env s tr)) \<noteq> []"
  "messages s \<noteq> [] \<Longrightarrow> messages (fst (hotels_block env s tr)) \<noteq> []"
  "messages s \<noteq> [] \<Longrightarrow> messages (fst (snd (best_flights_block env s tr))) \<noteq> []"
  "messages s \<noteq> [] \<Longrightarrow> messages (fst (snd (best_hotels_block env s tr))) \<noteq> []"
  by (simp_all add: flights_block_def hotels_block_def best_flights_block_def
        best_hotels_block_def Let_def case_prod_unfold split: option.splits)

lemma main_chat_invariant:
  assumes "main env ev s tr = (out, s', tr')"
    and "messages s = [] \<longrightarrow> current_stage s = collecting_info"
  shows "messages s' = [] \<longrightarrow> current_stage s' = collecting_info"
proof (cases "ev = Start_new_trip")
  case True
  with assms(1) show ?thesis by (auto simp: main_def reset_session_def)
next
  case False
  show ?thesis
  proof (cases "messages s = []")
    case True
    with False assms(1) show ?thesis by (auto simp: main_def)
  next
    case ne: False
    have "messages s' \<noteq> []"
      using assms(1) False ne
      by (auto simp: main_def create_itinerary_def search_flights_and_hotels_def
            process_user_input_def Let_def case_prod_unfold block_messages
          split: if_splits ui_event.splits prod.splits sum.splits run_outcome.splits)
    then show ?thesis by simp
  qed
qed

lemma runs_chat_invariant:
  "(messages s = [] \<longrightarrow> current_stage s = collecting_info) \<Longrightarrow>
     messages (fst (runs env evs s tr)) = [] \<longrightarrow>
       current_stage (fst (runs env evs s tr)) = collecting_info"
proof (induction evs arbitrary: s tr)
  case Nil
  then show ?case by simp
next
  case (Cons ev evs)
  obtain out s1 tr1 where m: "main env ev s tr = (out, s1, tr1)"
    by (cases "main env ev s tr")
  from main_chat_invariant[OF m Cons.prems] Cons.IH[of s1 tr1] m
  show ?case by simp
qed

lemma runs_snoc:
  "runs env (evs @ [ev]) s tr =
     (case main env ev (fst (runs env evs s tr)) (snd (runs env evs s tr)) of
        (out, s', tr') \<Rightarrow> (s', tr'))"
  by (induction evs arbitrary: s tr) (simp_all split: prod.splits)

lemma reachable_chat:
  "current_stage (fst (runs env evs initial_session tr)) \<noteq> collecting_info \<Longrightarrow>
     messages (fst (runs env evs initial_session tr)) \<noteq> []"
  using runs_chat_invariant[of initial_session env evs tr]
  by (auto simp: initial_session_def)
text \<open>
  Claim C7. No run of the driver other than the full reset lowers the stage, neither a
  single run nor a sequence of runs. A user message processed in collecting_info leaves
  the stage at searching_flights_hotels exactly when the extraction returned and the
  completeness check holds on the record it left, and at collecting_info otherwise, and
  a run leaves collecting_info only that way. \<open>search_flights_and_hotels\<close> always ends in
  creating_itinerary and \<open>create_itinerary\<close> always ends in completed, whatever the
  adapters, the rankings and the composer returned; so from a state in one of these two
  stages that a session can reach (or any state whose chat is not empty), the next run
  moves to the next stage. A run in completed stays there. The reset sets the stage to
  collecting_info.
\<close>

theorem stage_moves_forward:
  "(ev \<noteq> Start_new_trip \<and> main env ev s tr = (out, s', tr') \<longrightarrow>
      stage_rank (current_stage s) \<le> stage_rank (current_stage s'))
   \<and> (Start_new_trip \<notin> set evs \<longrightarrow>
        stage_rank (current_stage s) \<le> stage_rank (current_stage (fst (runs env evs s tr))))
   \<and> (current_stage s = collecting_info \<and> process_user_input env u s tr = (out, s', tr') \<longrightarrow>
        (current_stage s' = searching_flights_hotels \<longleftrightarrow>
           (\<exists>info. fst (extract_info_from_input env u (backend s) tr) = Inr info)
           \<and> is_info_complete (backend s'))
        \<and> (current_stage s' \<noteq> searching_flights_hotels \<longrightarrow> current_stage s' = collecting_info))
   \<and> (ev \<noteq> Start_new_trip \<and> main env ev s tr = (out, s', tr')
        \<and> current_stage s = collecting_info \<and> current_stage s' \<noteq> collecting_info \<longrightarrow>
        current_stage s' = searching_flights_hotels \<and> is_info_complete (backend s')
        \<and> (\<exists>u. ev = Chat_input u))
   \<and> current_stage (fst (search_flights_and_hotels env s tr)) = creating_itinerary
   \<and> current_stage (fst (create_itinerary env s tr)) = completed
   \<and> (ev \<noteq> Start_new_trip \<and> main env ev s tr = (out, s', tr') \<and> messages s \<noteq> []
        \<and> current_stage s = searching_flights_hotels \<longrightarrow>
        out = Rerun \<and> current_stage s' = creating_itinerary)
   \<and> (ev \<noteq> Start_new_trip \<and> main env ev s tr = (out, s', tr') \<and> messages s \<noteq> []
        \<and> current_stage s = creating_itinerary \<longrightarrow>
        out = Rerun \<and> current_stage s' = completed)
   \<and> (ev \<noteq> Start_new_trip
        \<and> current_stage (fst (runs env evs initial_session tr0)) = searching_flights_hotels \<longrightarrow>
        current_stage (fst (runs env (evs @ [ev]) initial_session tr0)) = creating_itinerary)
   \<and> (ev \<noteq> Start_new_trip
        \<and> current_stage (fst (runs env evs initial_session tr0)) = creating_itinerary \<longrightarrow>
        current_stage (fst (runs env (evs @ [ev]) initial_session tr0)) = completed)
   \<and> (ev \<noteq> Start_new_trip \<and> main env ev s tr = (out, s', tr')
        \<and> current_stage s = completed \<longrightarrow>
        current_stage s' = completed)
   \<and> main env Start_new_trip s tr = (Rerun, reset_session s, tr)
   \<and> current_stage (reset_session s) = collecting_info"
proof (intro conjI impI)
  assume "ev \<noteq> Start_new_trip \<and> main env ev s tr = (out, s', tr')"
  then show "stage_rank (current_stage s) \<le> stage_rank (current_stage s')"
    using main_stage_forward by blast
next
  assume "Start_new_trip \<notin> set evs"
  then show "stage_rank (current_stage s) \<le> stage_rank (current_stage (fst (runs env evs s tr)))"
    by (rule runs_stage_forward)
next
  assume a: "current_stage s = collecting_info \<and> process_user_input env u s tr = (out, s', tr')"
  then have p: "process_user_input env u s tr = (out, s', tr')" and c: "current_stage s = collecting_info"
    by simp_all
  from process_user_input_stage[OF p c]
  show "current_stage s' = searching_flights_hotels \<longleftrightarrow>
           (\<exists>info. fst (extract_info_from_input env u (backend s) tr) = Inr info)
           \<and> is_info_complete (backend s')"
    by blast
  assume "current_stage s' \<noteq> searching_flights_hotels"
  with process_user_input_stage[OF p c] show "current_stage s' = collecting_info"
    by blast
next
  assume a: "ev \<noteq> Start_new_trip \<and> main env ev s tr = (out, s', tr')
        \<and> current_stage s = collecting_info \<and> current_stage s' \<noteq> collecting_info"
  then have "current_stage s' = searching_flights_hotels \<and> is_info_complete (backend s')
        \<and> (\<exists>u. ev = Chat_input u)"
    using main_from_collecting by blast
  then show "current_stage s' = searching_flights_hotels" "is_info_complete (backend s')"
    "\<exists>u. ev = Chat_input u"
    by blast+
next
  show "current_stage (fst (search_flights_and_hotels env s tr)) = creating_itinerary"
    by (rule search_flights_and_hotels_stage)
next
  show "current_stage (fst (create_itinerary env s tr)) = completed"
    by (rule create_itinerary_stage)
next
  assume a: "ev \<noteq> Start_new_trip \<and> main env ev s tr = (out, s', tr') \<and> messages s \<noteq> []
        \<and> current_stage s = searching_flights_hotels"
  then have "out = Rerun \<and> current_stage s' = creating_itinerary"
    using main_from_searching by blast
  then show "out = Rerun" "current_stage s' = creating_itinerary" by blast+
next
  assume a: "ev \<noteq> Start_new_trip \<and> main env ev s tr = (out, s', tr') \<and> messages s \<noteq> []
        \<and> current_stage s = creating_itinerary"
  then have "out = Rerun \<and> current_stage s' = completed"
    using main_from_creating by blast
  then show "out = Rerun" "current_stage s' = completed" by blast+
next
  let ?R = "runs env evs initial_session tr0"
  assume a: "ev \<noteq> Start_new_trip \<and> current_stage (fst ?R) = searching_flights_hotels"
  then have m: "messages (fst ?R) \<noteq> []"
    using reachable_chat[of env evs tr0] by simp
  obtain out1 s1 tr1 where r: "main env ev (fst ?R) (snd ?R) = (out1, s1, tr1)"
    by (cases "main env ev (fst ?R) (snd ?R)")
  with a m have "current_stage s1 = creating_itinerary"
    using main_from_searching by blast
  with r show "current_stage (fst (runs env (evs @ [ev]) initial_session tr0)) = creating_itinerary"
    by (simp add: runs_snoc)
next
  let ?R = "runs env evs initial_session tr0"
  assume a: "ev \<noteq> Start_new_trip \<and> current_stage (fst ?R) = creating_itinerary"
  then have m: "messages (fst ?R) \<noteq> []"
    using reachable_chat[of env evs tr0] by simp
  obtain out1 s1 tr1 where r: "main env ev (fst ?R) (snd ?R) = (out1, s1, tr1)"
    by (cases "main env ev (fst ?R) (snd ?R)")
  with a m have "current_stage s1 = completed"
    using main_from_creating by blast
  with r show "current_stage (fst (runs env (evs @ [ev]) initial_session tr0)) = completed"
    by (simp add: runs_snoc)
next
  assume "ev \<noteq> Start_new_trip \<and> main env ev s tr = (out, s', tr')
        \<and> current_stage s = completed"
  then show "current_stage s' = completed"
    using main_from_completed by blast
next
  show "main env Start_new_trip s tr = (Rerun, reset_session s, tr)"
    by (simp add: main_def)
next
  show "current_stage (reset_session s) = collecting_info"
    by (simp add: reset_session_def)
qed

theorem stage_moves_forward_witness:
  "current_stage (fst (runs full_reply_env [No_event, Chat_input ''Delhi to Goa''] initial_session []))
     = searching_flights_hotels
   \<and> current_stage
        (fst (runs full_reply_env [No_event, Chat_input ''Delhi to Goa'', No_event] initial_session []))
     = creating_itinerary
   \<and> current_stage
        (fst (runs full_reply_env [No_event, Chat_input ''Delhi to Goa'', No_event, No_event]
                initial_session []))
     = completed"
proof -
  have a: "current_stage (fst (runs full_reply_env [No_event, Chat_input ''Delhi to Goa''] initial_session []))
     = searching_flights_hotels"
    by code_simp
  have n: "No_event \<noteq> Start_new_trip"
    by simp
  note searching_next =
    stage_moves_forward[where ev = No_event and env = full_reply_env
      and evs = "[No_event, Chat_input ''Delhi to Goa'']" and ?tr0.0 = "[]",
      THEN conjunct2, THEN conjunct2, THEN conjunct2, THEN conjunct2, THEN conjunct2,
      THEN conjunct2, THEN conjunct2, THEN conjunct2, THEN conjunct1, THEN mp]
  have "current_stage
        (fst (runs full_reply_env ([No_event, Chat_input ''Delhi to Goa''] @ [No_event])
                initial_session []))
     = creating_itinerary"
    by (rule searching_next) (intro conjI n a)
  then have b: "current_stage
        (fst (runs full_reply_env [No_event, Chat_input ''Delhi to Goa'', No_event] initial_session []))
     = creating_itinerary"
    by (simp only: append_Cons append_Nil)
  note creating_next =
    stage_moves_forward[where ev = No_event and env = full_reply_env
      and evs = "[No_event, Chat_input ''Delhi to Goa'', No_event]" and ?tr0.0 = "[]",
      THEN conjunct2, THEN conjunct2, THEN conjunct2, THEN conjunct2, THEN conjunct2,
      THEN conjunct2, THEN conjunct2, THEN conjunct2, THEN conjunct2, THEN conjunct1, THEN mp]
  have "current_stage
        (fst (runs full_reply_env ([No_event, Chat_input ''Delhi to Goa'', No_event] @ [No_event])
                initial_session []))
     = completed"
    by (rule creating_next) (intro conjI n b)
  then have c: "current_stage
        (fst (runs full_reply_env [No_event, Chat_input ''Delhi to Goa'', No_event, No_event]
                initial_session []))
     = completed"
    by (simp only: append_Cons append_Nil)
  from a b c show ?thesis by (intro conjI)
qed

subsection \<open>The destination recommendation\<close>















end
